theory Spec2Isabelle
  imports Main "HOL-Library.Word"
begin

unbundle bit_operations_syntax

section \<open>The native platform, as the wrappers see it\<close>

text \<open>
  The wrappers of this repository (\<^verbatim>\<open>event.hpp\<close>, \<^verbatim>\<open>kernel.hpp\<close>,
  \<^verbatim>\<open>nvrtc/program.hpp\<close>) are thin layers over the CUDA driver API and the NVRTC
  library. Neither library is part of the repository, so both are parameters of the
  model: a driver is a collection of functions, one per native entry point, each of
  which sees the history of native calls made so far and the arguments of the call and
  answers with a status code and its out-values. Nothing is assumed about a driver
  unless a theorem says so.

  Handles are opaque pointers; they are modelled as natural numbers.
\<close>

type_synonym handle = nat
type_synonym device_id = int

text \<open>\<^verbatim>\<open>CUresult\<close>: the two codes that the wrappers look at, and all the others.\<close>

datatype status_t = success | not_ready | not_yet_implemented | other_status nat

text \<open>\<^verbatim>\<open>nvrtcResult\<close>, likewise.\<close>

datatype nvrtc_status = NVRTC_SUCCESS | NVRTC_ERROR_INVALID_PROGRAM | NVRTC_ERROR_OTHER nat

text \<open>\<^verbatim>\<open>CUfunction_attribute\<close>: the attributes that \<^verbatim>\<open>kernel.hpp\<close> names.\<close>

datatype attribute_t =
    CU_FUNC_ATTRIBUTE_MAX_THREADS_PER_BLOCK
  | CU_FUNC_ATTRIBUTE_PTX_VERSION
  | CU_FUNC_ATTRIBUTE_BINARY_VERSION
  | CU_FUNC_ATTRIBUTE_MAX_DYNAMIC_SHARED_SIZE_BYTES
  | CU_FUNC_ATTRIBUTE_OTHER nat

datatype occupancy_flag = CU_OCCUPANCY_DEFAULT | CU_OCCUPANCY_DISABLE_CACHING_OVERRIDE

text \<open>
  A C \<^verbatim>\<open>int\<close> and an \<^verbatim>\<open>unsigned\<close> are both 32-bit words; \<open>sint\<close> reads the
  former, \<open>uint\<close> the latter, and a cast between the two keeps the bits.
\<close>

type_synonym c_int = "32 word"
type_synonym c_unsigned = "32 word"

text \<open>The native calls that the wrappers issue, with their in-arguments.\<close>

datatype native_call =
    Call_cuEventCreate c_unsigned
  | Call_cuEventDestroy handle
  | Call_cuEventQuery handle
  | Call_cuEventRecord handle handle
  | Call_cuEventSynchronize handle
  | Call_cuFuncGetAttribute attribute_t handle
  | Call_cuFuncSetCacheConfig handle nat
  | Call_cuFuncSetSharedMemConfig handle nat
  | Call_cuOccupancyMaxPotentialBlockSizeWithFlags handle "(c_int \<Rightarrow> nat) option" nat c_int occupancy_flag
  | Call_nvrtcCreateProgram string string nat "string list" "string list"
  | Call_nvrtcDestroyProgram handle
  | Call_nvrtcCompileProgram handle "string list"
  | Call_nvrtcAddNameExpression handle string
  | Call_nvrtcGetPTXSize handle
  | Call_nvrtcGetPTX handle
  | Call_nvrtcGetCUBINSize handle
  | Call_nvrtcGetCUBIN handle
  | Call_nvrtcGetNVVMSize handle
  | Call_nvrtcGetNVVM handle

type_synonym history = "native_call list"

record cuda_driver =
  CUDART_VERSION :: nat
  cuEventCreate :: "history \<Rightarrow> c_unsigned \<Rightarrow> status_t \<times> handle"
  cuEventDestroy :: "history \<Rightarrow> handle \<Rightarrow> status_t"
  cuEventQuery :: "history \<Rightarrow> handle \<Rightarrow> status_t"
  cuEventRecord :: "history \<Rightarrow> handle \<Rightarrow> handle \<Rightarrow> status_t"
  cuEventSynchronize :: "history \<Rightarrow> handle \<Rightarrow> status_t"
  cuFuncGetAttribute :: "history \<Rightarrow> attribute_t \<Rightarrow> handle \<Rightarrow> status_t \<times> c_int"
  cuFuncSetCacheConfig :: "history \<Rightarrow> handle \<Rightarrow> nat \<Rightarrow> status_t"
  cuFuncSetSharedMemConfig :: "history \<Rightarrow> handle \<Rightarrow> nat \<Rightarrow> status_t"
  cuOccupancyMaxPotentialBlockSizeWithFlags ::
    "history \<Rightarrow> handle \<Rightarrow> (c_int \<Rightarrow> nat) option \<Rightarrow> nat \<Rightarrow> c_int \<Rightarrow> occupancy_flag
       \<Rightarrow> status_t \<times> c_int \<times> c_int"

record nvrtc_library =
  nvrtcCreateProgram ::
    "history \<Rightarrow> string \<Rightarrow> string \<Rightarrow> nat \<Rightarrow> string list \<Rightarrow> string list \<Rightarrow> nvrtc_status \<times> handle"
  nvrtcDestroyProgram :: "history \<Rightarrow> handle \<Rightarrow> nvrtc_status"
  nvrtcCompileProgram :: "history \<Rightarrow> handle \<Rightarrow> string list \<Rightarrow> nvrtc_status"
  nvrtcAddNameExpression :: "history \<Rightarrow> handle \<Rightarrow> string \<Rightarrow> nvrtc_status"
  nvrtcGetPTXSize :: "history \<Rightarrow> handle \<Rightarrow> nvrtc_status \<times> nat"
  nvrtcGetPTX :: "history \<Rightarrow> handle \<Rightarrow> nvrtc_status \<times> string"
  nvrtcGetCUBINSize :: "history \<Rightarrow> handle \<Rightarrow> nvrtc_status \<times> nat"
  nvrtcGetCUBIN :: "history \<Rightarrow> handle \<Rightarrow> nvrtc_status \<times> string"
  nvrtcGetNVVMSize :: "history \<Rightarrow> handle \<Rightarrow> nvrtc_status \<times> nat"
  nvrtcGetNVVM :: "history \<Rightarrow> handle \<Rightarrow> nvrtc_status \<times> string"

text \<open>
  The part of the world a wrapper can change: the native calls issued so far, oldest
  first, and the calling thread's stack of current contexts.
\<close>

record world =
  trace :: history
  ctx_stack :: "handle list"

definition issue :: "native_call \<Rightarrow> world \<Rightarrow> world" where
  "issue c w = w\<lparr>trace := trace w @ [c]\<rparr>"

section \<open>Errors\<close>

text \<open>
  The exceptions the wrappers throw. The message texts are left out: they are built by
  the \<^verbatim>\<open>identify\<close> helpers, most of which live outside the files at hand, and no
  property below depends on them.
\<close>

datatype error =
    runtime_error status_t
  | rtc_runtime_error nvrtc_status
  | logic_error
  | invalid_argument

text \<open>
  Modelled from the spec: \<^verbatim>\<open>cuda::throw_if_error\<close> (\<^verbatim>\<open>cuda/api/error.hpp\<close>) and its
  NVRTC twin (\<^verbatim>\<open>cuda/nvrtc/error.hpp\<close>) are not among the sources. The specification
  says that a non-success return code is translated into a thrown failure carrying the
  native status code.
\<close>

definition throw_if_error :: "status_t \<Rightarrow> error + unit" where
  "throw_if_error status = (if status = success then Inr () else Inl (runtime_error status))"

definition rtc_throw_if_error :: "nvrtc_status \<Rightarrow> error + unit" where
  "rtc_throw_if_error status =
     (if status = NVRTC_SUCCESS then Inr () else Inl (rtc_runtime_error status))"

section \<open>The scoped context override\<close>

text \<open>
  Modelled from the spec: \<^verbatim>\<open>context::current::detail_::scoped_override_t\<close>
  (\<^verbatim>\<open>cuda/api/current_context.hpp\<close>) is not among the sources. The specification
  describes it as a push/pop object on the thread's current-context slot: construction
  pushes the target context, destruction pops it, which makes the context that was
  current before the construction current again. The slot is the top of the stack.
\<close>

definition current_context :: "world \<Rightarrow> handle option" where
  "current_context w = (case ctx_stack w of [] \<Rightarrow> None | c # _ \<Rightarrow> Some c)"

definition scoped_override_t_ctor :: "handle \<Rightarrow> world \<Rightarrow> world" where
  "scoped_override_t_ctor context_handle w = w\<lparr>ctx_stack := context_handle # ctx_stack w\<rparr>"

definition scoped_override_t_dtor :: "world \<Rightarrow> world" where
  "scoped_override_t_dtor w = w\<lparr>ctx_stack := tl (ctx_stack w)\<rparr>"

section \<open>Special member functions\<close>

text \<open>
  A class may define, default or delete its copy and move constructors. A constructor
  that exists maps the source object to the new object and the source as it is left
  behind.
\<close>

datatype 'a special_member = deleted | provided "'a \<Rightarrow> 'a \<times> 'a"

fun available :: "'a special_member \<Rightarrow> bool" where
  "available deleted = False"
| "available (provided f) = True"

fun construct_from :: "'a special_member \<Rightarrow> 'a \<Rightarrow> ('a \<times> 'a) option" where
  "construct_from deleted x = None"
| "construct_from (provided f) x = Some (f x)"

section \<open>Events (event.hpp)\<close>

record event_t =
  event_t_device_id :: device_id
  event_t_context_handle :: handle
  event_t_handle :: handle
  event_t_owning :: bool

definition event_t_ctor :: "device_id \<Rightarrow> handle \<Rightarrow> handle \<Rightarrow> bool \<Rightarrow> event_t" where
  "event_t_ctor device_id context_handle event_handle take_ownership =
     \<lparr>event_t_device_id = device_id, event_t_context_handle = context_handle,
      event_t_handle = event_handle, event_t_owning = take_ownership\<rparr>"

definition event_wrap :: "device_id \<Rightarrow> handle \<Rightarrow> handle \<Rightarrow> bool \<Rightarrow> event_t" where
  "event_wrap device_id context_handle event_handle take_ownership =
     event_t_ctor device_id context_handle event_handle take_ownership"

text \<open>\<^verbatim>\<open>event_t(const event_t& other)\<close>: the source is const and stays as it is.\<close>

definition event_t_copy :: "event_t special_member" where
  "event_t_copy = provided (\<lambda>other.
     (event_t_ctor (event_t_device_id other) (event_t_context_handle other) (event_t_handle other) False,
      other))"

text \<open>\<^verbatim>\<open>event_t(event_t&& other)\<close>: the body clears the source's flag.\<close>

definition event_t_move :: "event_t special_member" where
  "event_t_move = provided (\<lambda>other.
     (event_t_ctor (event_t_device_id other) (event_t_context_handle other) (event_t_handle other)
        (event_t_owning other),
      other\<lparr>event_t_owning := False\<rparr>))"

text \<open>\<^verbatim>\<open>~event_t()\<close>: the status of \<^verbatim>\<open>cuEventDestroy\<close> is dropped.\<close>

definition event_t_dtor :: "cuda_driver \<Rightarrow> event_t \<Rightarrow> world \<Rightarrow> (error + unit) \<times> world" where
  "event_t_dtor drv e w =
     (if event_t_owning e
      then (let ignored = cuEventDestroy drv (trace w) (event_t_handle e)
            in (Inr (), issue (Call_cuEventDestroy (event_t_handle e)) w))
      else (Inr (), w))"

definition has_occurred :: "cuda_driver \<Rightarrow> event_t \<Rightarrow> world \<Rightarrow> (error + bool) \<times> world" where
  "has_occurred drv e w =
     (let status = cuEventQuery drv (trace w) (event_t_handle e);
          w' = issue (Call_cuEventQuery (event_t_handle e)) w
      in if status = success then (Inr True, w')
         else if status = not_ready then (Inr False, w')
         else (Inl (runtime_error status), w'))"

definition query :: "cuda_driver \<Rightarrow> event_t \<Rightarrow> world \<Rightarrow> (error + bool) \<times> world" where
  "query drv e w = has_occurred drv e w"

text \<open>
  \<^verbatim>\<open>cuda::synchronize(const event_t&)\<close>. The override is a local object: its destructor
  runs when the function returns and when \<^verbatim>\<open>throw_if_error\<close> throws.
\<close>

definition synchronize :: "cuda_driver \<Rightarrow> event_t \<Rightarrow> world \<Rightarrow> (error + unit) \<times> world" where
  "synchronize drv e w =
     (let context_handle = event_t_context_handle e;
          event_handle = event_t_handle e;
          w1 = scoped_override_t_ctor context_handle w;
          status = cuEventSynchronize drv (trace w1) event_handle;
          w2 = issue (Call_cuEventSynchronize event_handle) w1;
          r = throw_if_error status
      in (r, scoped_override_t_dtor w2))"

text \<open>
  \<^verbatim>\<open>event::detail_::make_flags\<close>. The three flag constants come from \<^verbatim>\<open>cuda.h\<close>
  (\<^verbatim>\<open>CU_EVENT_BLOCKING_SYNC\<close>, \<^verbatim>\<open>CU_EVENT_DISABLE_TIMING\<close>, \<^verbatim>\<open>CU_EVENT_INTERPROCESS\<close>).
\<close>

definition CU_EVENT_BLOCKING_SYNC :: c_unsigned where "CU_EVENT_BLOCKING_SYNC = 1"
definition CU_EVENT_DISABLE_TIMING :: c_unsigned where "CU_EVENT_DISABLE_TIMING = 2"
definition CU_EVENT_INTERPROCESS :: c_unsigned where "CU_EVENT_INTERPROCESS = 4"

definition make_flags :: "bool \<Rightarrow> bool \<Rightarrow> bool \<Rightarrow> c_unsigned" where
  "make_flags uses_blocking_sync records_timing interprocess =
     (if uses_blocking_sync then CU_EVENT_BLOCKING_SYNC else 0)
     OR (if records_timing then 0 else CU_EVENT_DISABLE_TIMING)
     OR (if interprocess then CU_EVENT_INTERPROCESS else 0)"

definition create_in_current_context ::
  "cuda_driver \<Rightarrow> device_id \<Rightarrow> handle \<Rightarrow> bool \<Rightarrow> bool \<Rightarrow> bool \<Rightarrow> world \<Rightarrow> (error + event_t) \<times> world"
where
  "create_in_current_context drv current_device_id current_context_handle
       uses_blocking_sync records_timing interprocess w =
     (let flags = make_flags uses_blocking_sync records_timing interprocess;
          (status, new_event_handle) = cuEventCreate drv (trace w) flags;
          w' = issue (Call_cuEventCreate flags) w
      in case throw_if_error status of
           Inl e \<Rightarrow> (Inl e, w')
         | Inr _ \<Rightarrow>
             (let take_ownership = True
              in (Inr (event_wrap current_device_id current_context_handle new_event_handle
                         take_ownership), w')))"

definition event_create ::
  "cuda_driver \<Rightarrow> device_id \<Rightarrow> handle \<Rightarrow> bool \<Rightarrow> bool \<Rightarrow> bool \<Rightarrow> world \<Rightarrow> (error + event_t) \<times> world"
where
  "event_create drv device_id context_handle uses_blocking_sync records_timing interprocess w =
     (let w1 = scoped_override_t_ctor context_handle w;
          (r, w2) = create_in_current_context drv device_id context_handle
                      uses_blocking_sync records_timing interprocess w1
      in (r, scoped_override_t_dtor w2))"

text \<open>\<^verbatim>\<open>event_t::record() const\<close>, on the default stream (handle 0).\<close>

definition default_stream_handle :: handle where
  "default_stream_handle = 0"

definition enqueue :: "cuda_driver \<Rightarrow> handle \<Rightarrow> handle \<Rightarrow> world \<Rightarrow> (error + unit) \<times> world" where
  "enqueue drv stream_handle event_handle w =
     (let status = cuEventRecord drv (trace w) event_handle stream_handle
      in (throw_if_error status, issue (Call_cuEventRecord event_handle stream_handle) w))"

definition record_event :: "cuda_driver \<Rightarrow> event_t \<Rightarrow> world \<Rightarrow> (error + unit) \<times> world" where
  "record_event drv e w = enqueue drv default_stream_handle (event_t_handle e) w"

section \<open>Kernels (kernel.hpp)\<close>

record kernel_t =
  kernel_t_device_id :: device_id
  kernel_t_context_handle :: handle
  kernel_t_handle :: handle

definition kernel_wrap :: "device_id \<Rightarrow> handle \<Rightarrow> handle \<Rightarrow> kernel_t" where
  "kernel_wrap device_id context_id f =
     \<lparr>kernel_t_device_id = device_id, kernel_t_context_handle = context_id, kernel_t_handle = f\<rparr>"

text \<open>Both constructors of \<^verbatim>\<open>kernel_t\<close> are defaulted: memberwise.\<close>

definition kernel_t_copy :: "kernel_t special_member" where
  "kernel_t_copy = provided (\<lambda>other. (other, other))"

definition kernel_t_move :: "kernel_t special_member" where
  "kernel_t_move = provided (\<lambda>other. (other, other))"

definition get_attribute_in_current_context ::
  "cuda_driver \<Rightarrow> handle \<Rightarrow> attribute_t \<Rightarrow> world \<Rightarrow> (error + c_int) \<times> world"
where
  "get_attribute_in_current_context drv h attribute w =
     (let (result, attribute_value) = cuFuncGetAttribute drv (trace w) attribute h;
          w' = issue (Call_cuFuncGetAttribute attribute h) w
      in case throw_if_error result of
           Inl e \<Rightarrow> (Inl e, w')
         | Inr _ \<Rightarrow> (Inr attribute_value, w'))"

definition get_attribute ::
  "cuda_driver \<Rightarrow> kernel_t \<Rightarrow> attribute_t \<Rightarrow> world \<Rightarrow> (error + c_int) \<times> world"
where
  "get_attribute drv k attribute w =
     (let w1 = scoped_override_t_ctor (kernel_t_context_handle k) w;
          (r, w2) = get_attribute_in_current_context drv (kernel_t_handle k) attribute w1
      in (r, scoped_override_t_dtor w2))"

text \<open>
  Modelled from the spec: \<^verbatim>\<open>cuda/api/types.hpp\<close>, which declares
  \<^verbatim>\<open>grid::dimension_t\<close>, \<^verbatim>\<open>grid::block_dimension_t\<close>, \<^verbatim>\<open>grid::complete_dimensions_t\<close>
  and \<^verbatim>\<open>kernel::attribute_value_t\<close>, is not among the sources. The specification
  speaks of a grid dimension count and a block dimension count, typed apart. Both are
  unsigned 32-bit counts here (the source has to cast the platform's \<^verbatim>\<open>int\<close> to them
  and the limit to \<^verbatim>\<open>int\<close>), an attribute value is an \<^verbatim>\<open>int\<close>, and the complete
  dimensions are the pair of a grid count and a block count.
\<close>

type_synonym dimension_t = c_unsigned
type_synonym block_dimension_t = c_unsigned

record complete_dimensions_t =
  grid :: dimension_t
  block :: block_dimension_t

definition maximum_threads_per_block ::
  "cuda_driver \<Rightarrow> kernel_t \<Rightarrow> world \<Rightarrow> (error + block_dimension_t) \<times> world"
where
  "maximum_threads_per_block drv k w = get_attribute drv k CU_FUNC_ATTRIBUTE_MAX_THREADS_PER_BLOCK w"

text \<open>
  \<^verbatim>\<open>set_cache_preference\<close> and \<^verbatim>\<open>set_shared_memory_bank_size\<close> are declared without
  \<^verbatim>\<open>const\<close>: they receive a mutable \<^verbatim>\<open>this\<close>, which the model hands back.
\<close>

definition set_cache_preference ::
  "cuda_driver \<Rightarrow> kernel_t \<Rightarrow> nat \<Rightarrow> world \<Rightarrow> (error + unit) \<times> kernel_t \<times> world"
where
  "set_cache_preference drv k preference w =
     (let w1 = scoped_override_t_ctor (kernel_t_context_handle k) w;
          result = cuFuncSetCacheConfig drv (trace w1) (kernel_t_handle k) preference;
          w2 = issue (Call_cuFuncSetCacheConfig (kernel_t_handle k) preference) w1
      in (throw_if_error result, k, scoped_override_t_dtor w2))"

definition set_shared_memory_bank_size ::
  "cuda_driver \<Rightarrow> kernel_t \<Rightarrow> nat \<Rightarrow> world \<Rightarrow> (error + unit) \<times> kernel_t \<times> world"
where
  "set_shared_memory_bank_size drv k config w =
     (let w1 = scoped_override_t_ctor (kernel_t_context_handle k) w;
          result = cuFuncSetSharedMemConfig drv (trace w1) (kernel_t_handle k) config;
          w2 = issue (Call_cuFuncSetSharedMemConfig (kernel_t_handle k) config) w1
      in (throw_if_error result, k, scoped_override_t_dtor w2))"

text \<open>
  \<^verbatim>\<open>kernel::occupancy::detail_::min_grid_params_for_max_occupancy\<close>. The preprocessor
  branch on \<^verbatim>\<open>CUDART_VERSION\<close> is a branch on the driver's version; the casts
  \<^verbatim>\<open>static_cast<int>\<close>, \<^verbatim>\<open>(grid::dimension_t)\<close> and \<^verbatim>\<open>(grid::block_dimension_t)\<close> keep
  the 32 bits.
\<close>

definition detail_min_grid_params_for_max_occupancy ::
  "cuda_driver \<Rightarrow> handle \<Rightarrow> device_id \<Rightarrow> (c_int \<Rightarrow> nat) option \<Rightarrow> nat \<Rightarrow> block_dimension_t \<Rightarrow> bool
     \<Rightarrow> world \<Rightarrow> (error + complete_dimensions_t) \<times> world"
where
  "detail_min_grid_params_for_max_occupancy drv kernel_handle device_id
       determine_shared_mem_by_block_size fixed_shared_mem_size block_size_limit
       disable_caching_override w =
     (if CUDART_VERSION drv \<le> 10000 then (Inl (runtime_error not_yet_implemented), w)
      else
        (let flags = (if disable_caching_override then CU_OCCUPANCY_DISABLE_CACHING_OVERRIDE
                      else CU_OCCUPANCY_DEFAULT);
             (result, min_grid_size_in_blocks, block_size) =
                cuOccupancyMaxPotentialBlockSizeWithFlags drv (trace w) kernel_handle
                  determine_shared_mem_by_block_size fixed_shared_mem_size block_size_limit flags;
             w' = issue (Call_cuOccupancyMaxPotentialBlockSizeWithFlags kernel_handle
                           determine_shared_mem_by_block_size fixed_shared_mem_size
                           block_size_limit flags) w
         in case throw_if_error result of
              Inl e \<Rightarrow> (Inl e, w')
            | Inr _ \<Rightarrow> (Inr \<lparr>grid = min_grid_size_in_blocks, block = block_size\<rparr>, w')))"

text \<open>The two public overloads, by fixed size and by a size-determining function.\<close>

definition min_grid_params_for_max_occupancy ::
  "cuda_driver \<Rightarrow> kernel_t \<Rightarrow> nat \<Rightarrow> block_dimension_t \<Rightarrow> bool
     \<Rightarrow> world \<Rightarrow> (error + complete_dimensions_t) \<times> world"
where
  "min_grid_params_for_max_occupancy drv k dynamic_shared_memory_size block_size_limit
       disable_caching_override w =
     detail_min_grid_params_for_max_occupancy drv (kernel_t_handle k)
       (kernel_t_device_id k) None dynamic_shared_memory_size block_size_limit
       disable_caching_override w"

definition min_grid_params_for_max_occupancy_by_determiner ::
  "cuda_driver \<Rightarrow> kernel_t \<Rightarrow> (c_int \<Rightarrow> nat) \<Rightarrow> block_dimension_t \<Rightarrow> bool
     \<Rightarrow> world \<Rightarrow> (error + complete_dimensions_t) \<times> world"
where
  "min_grid_params_for_max_occupancy_by_determiner drv k shared_memory_size_determiner
       block_size_limit disable_caching_override w =
     (let ignored_fixed_dynamic_shared_mem_size = 0
      in detail_min_grid_params_for_max_occupancy drv (kernel_t_handle k)
           (kernel_t_device_id k) (Some shared_memory_size_determiner)
           ignored_fixed_dynamic_shared_mem_size block_size_limit disable_caching_override w)"

section \<open>Runtime-compiled programs (nvrtc/program.hpp)\<close>

record program_t =
  program_t_handle :: handle
  program_t_name :: string
  program_t_owning :: bool

text \<open>
  Modelled from the spec: the template \<^verbatim>\<open>dynarray\<close> is declared in
  \<^verbatim>\<open>cuda/api/types.hpp\<close>, which is not among the sources. The specification has the
  accessors return independently owned copies of the artifact: \<^verbatim>\<open>dynarray<char>
  result(size)\<close> is a fresh buffer of \<^verbatim>\<open>size\<close> bytes, zero until written. A native
  getter writes its artifact into the buffer it is given; bytes it does not reach stay
  as they were, and the buffer keeps its length.
\<close>

definition dynarray :: "nat \<Rightarrow> string" where
  "dynarray sz = replicate sz (CHR 0x00)"

definition written_into :: "string \<Rightarrow> string \<Rightarrow> string" where
  "written_into buf bytes = take (length buf) bytes @ drop (length bytes) buf"

definition ptx :: "nvrtc_library \<Rightarrow> program_t \<Rightarrow> world \<Rightarrow> (error + string) \<times> world" where
  "ptx lib p w =
     (let (status, sz) = nvrtcGetPTXSize lib (trace w) (program_t_handle p);
          w1 = issue (Call_nvrtcGetPTXSize (program_t_handle p)) w
      in case rtc_throw_if_error status of
           Inl e \<Rightarrow> (Inl e, w1)
         | Inr _ \<Rightarrow>
             (let result = dynarray sz;
                  (status2, bytes) = nvrtcGetPTX lib (trace w1) (program_t_handle p);
                  w2 = issue (Call_nvrtcGetPTX (program_t_handle p)) w1
              in case rtc_throw_if_error status2 of
                   Inl e \<Rightarrow> (Inl e, w2)
                 | Inr _ \<Rightarrow> (Inr (written_into result bytes), w2)))"

definition has_ptx :: "nvrtc_library \<Rightarrow> program_t \<Rightarrow> world \<Rightarrow> (error + bool) \<times> world" where
  "has_ptx lib p w =
     (let (status, sz) = nvrtcGetPTXSize lib (trace w) (program_t_handle p);
          w1 = issue (Call_nvrtcGetPTXSize (program_t_handle p)) w
      in if status = NVRTC_ERROR_INVALID_PROGRAM then (Inr False, w1)
         else case rtc_throw_if_error status of
                Inl e \<Rightarrow> (Inl e, w1)
              | Inr _ \<Rightarrow> if sz = 0 then (Inl logic_error, w1) else (Inr True, w1))"

definition cubin :: "nvrtc_library \<Rightarrow> program_t \<Rightarrow> world \<Rightarrow> (error + string) \<times> world" where
  "cubin lib p w =
     (let (status, sz) = nvrtcGetCUBINSize lib (trace w) (program_t_handle p);
          w1 = issue (Call_nvrtcGetCUBINSize (program_t_handle p)) w
      in case rtc_throw_if_error status of
           Inl e \<Rightarrow> (Inl e, w1)
         | Inr _ \<Rightarrow>
             if sz = 0 then (Inl invalid_argument, w1)
             else
               (let result = dynarray sz;
                    (status2, bytes) = nvrtcGetCUBIN lib (trace w1) (program_t_handle p);
                    w2 = issue (Call_nvrtcGetCUBIN (program_t_handle p)) w1
                in case rtc_throw_if_error status2 of
                     Inl e \<Rightarrow> (Inl e, w2)
                   | Inr _ \<Rightarrow> (Inr (written_into result bytes), w2)))"

definition has_cubin :: "nvrtc_library \<Rightarrow> program_t \<Rightarrow> world \<Rightarrow> (error + bool) \<times> world" where
  "has_cubin lib p w =
     (let (status, sz) = nvrtcGetCUBINSize lib (trace w) (program_t_handle p);
          w1 = issue (Call_nvrtcGetCUBINSize (program_t_handle p)) w
      in if status = NVRTC_ERROR_INVALID_PROGRAM then (Inr False, w1)
         else case rtc_throw_if_error status of
                Inl e \<Rightarrow> (Inl e, w1)
              | Inr _ \<Rightarrow> (Inr (sz > 0), w1))"

definition nvvm :: "nvrtc_library \<Rightarrow> program_t \<Rightarrow> world \<Rightarrow> (error + string) \<times> world" where
  "nvvm lib p w =
     (let (status, sz) = nvrtcGetNVVMSize lib (trace w) (program_t_handle p);
          w1 = issue (Call_nvrtcGetNVVMSize (program_t_handle p)) w
      in case rtc_throw_if_error status of
           Inl e \<Rightarrow> (Inl e, w1)
         | Inr _ \<Rightarrow>
             (let result = dynarray sz;
                  (status2, bytes) = nvrtcGetNVVM lib (trace w1) (program_t_handle p);
                  w2 = issue (Call_nvrtcGetNVVM (program_t_handle p)) w1
              in case rtc_throw_if_error status2 of
                   Inl e \<Rightarrow> (Inl e, w2)
                 | Inr _ \<Rightarrow> (Inr (written_into result bytes), w2)))"

definition has_nvvm :: "nvrtc_library \<Rightarrow> program_t \<Rightarrow> world \<Rightarrow> (error + bool) \<times> world" where
  "has_nvvm lib p w =
     (let (status, sz) = nvrtcGetNVVMSize lib (trace w) (program_t_handle p);
          w1 = issue (Call_nvrtcGetNVVMSize (program_t_handle p)) w
      in if status = NVRTC_ERROR_INVALID_PROGRAM then (Inr False, w1)
         else case rtc_throw_if_error status of
                Inl e \<Rightarrow> (Inl e, w1)
              | Inr _ \<Rightarrow> if sz = 0 then (Inl logic_error, w1) else (Inr True, w1))"

text \<open>\<^verbatim>\<open>compile(span<const char*> options) const\<close>.\<close>

definition compile :: "nvrtc_library \<Rightarrow> program_t \<Rightarrow> string list \<Rightarrow> world \<Rightarrow> (error + unit) \<times> world" where
  "compile lib p options w =
     (let status = nvrtcCompileProgram lib (trace w) (program_t_handle p) options
      in (rtc_throw_if_error status, issue (Call_nvrtcCompileProgram (program_t_handle p) options) w))"

text \<open>
  \<^verbatim>\<open>register_name_for_lookup(const char*)\<close> is declared without \<^verbatim>\<open>const\<close>: it
  receives a mutable \<^verbatim>\<open>this\<close>, which the model hands back.
\<close>

definition register_name_for_lookup ::
  "nvrtc_library \<Rightarrow> program_t \<Rightarrow> string \<Rightarrow> world \<Rightarrow> (error + unit) \<times> program_t \<times> world"
where
  "register_name_for_lookup lib p unmangled_name w =
     (let status = nvrtcAddNameExpression lib (trace w) (program_t_handle p) unmangled_name
      in (rtc_throw_if_error status, p,
          issue (Call_nvrtcAddNameExpression (program_t_handle p) unmangled_name) w))"

text \<open>
  The public constructor. The member initialisers come first (\<^verbatim>\<open>name_(program_name)\<close>,
  \<^verbatim>\<open>owning_(true)\<close>), then \<^verbatim>\<open>nvrtcCreateProgram\<close> fills in the handle; its
  parameters are, in this order, the source text, the name, the number of headers, the
  header sources and the header names.
\<close>

definition program_t_ctor ::
  "nvrtc_library \<Rightarrow> string \<Rightarrow> string \<Rightarrow> nat \<Rightarrow> string list \<Rightarrow> string list \<Rightarrow> world
     \<Rightarrow> (error + program_t) \<times> world"
where
  "program_t_ctor lib program_name cuda_source num_headers header_names header_sources w =
     (let (status, h) = nvrtcCreateProgram lib (trace w) cuda_source program_name num_headers
                          header_sources header_names;
          w' = issue (Call_nvrtcCreateProgram cuda_source program_name num_headers
                        header_sources header_names) w
      in case rtc_throw_if_error status of
           Inl e \<Rightarrow> (Inl e, w')
         | Inr _ \<Rightarrow>
             (Inr \<lparr>program_t_handle = h, program_t_name = program_name, program_t_owning = True\<rparr>,
              w'))"

text \<open>\<^verbatim>\<open>program_t(const program_t&) = delete\<close>.\<close>

definition program_t_copy :: "program_t special_member" where
  "program_t_copy = deleted"

definition program_t_move :: "program_t special_member" where
  "program_t_move = provided (\<lambda>other.
     (\<lparr>program_t_handle = program_t_handle other, program_t_name = program_t_name other,
       program_t_owning = program_t_owning other\<rparr>,
      other\<lparr>program_t_owning := False\<rparr>))"

text \<open>\<^verbatim>\<open>~program_t()\<close>: the status of \<^verbatim>\<open>nvrtcDestroyProgram\<close> goes to \<^verbatim>\<open>throw_if_error\<close>.\<close>

definition program_t_dtor :: "nvrtc_library \<Rightarrow> program_t \<Rightarrow> world \<Rightarrow> (error + unit) \<times> world" where
  "program_t_dtor lib p w =
     (if program_t_owning p
      then (let status = nvrtcDestroyProgram lib (trace w) (program_t_handle p)
            in (rtc_throw_if_error status, issue (Call_nvrtcDestroyProgram (program_t_handle p)) w))
      else (Inr (), w))"

text \<open>
  The factories of namespace \<^verbatim>\<open>program\<close>. Spans and iterator ranges are lists; the
  null pointers of the two-argument overload are empty lists.
\<close>

definition create_spans ::
  "nvrtc_library \<Rightarrow> string \<Rightarrow> string \<Rightarrow> string list \<Rightarrow> string list \<Rightarrow> world
     \<Rightarrow> (error + program_t) \<times> world"
where
  "create_spans lib program_name cuda_source header_names header_sources w =
     program_t_ctor lib program_name cuda_source (length header_names) header_names header_sources w"

definition create_iterators ::
  "nvrtc_library \<Rightarrow> string \<Rightarrow> string \<Rightarrow> string list \<Rightarrow> string list \<Rightarrow> world
     \<Rightarrow> (error + program_t) \<times> world"
where
  "create_iterators lib program_name cuda_source header_names_range header_sources_start w =
     (let num_headers = length header_names_range;
          header_names = take num_headers header_names_range;
          header_sources = take num_headers header_sources_start
      in program_t_ctor lib cuda_source program_name num_headers header_names header_sources w)"

definition create_pairs ::
  "nvrtc_library \<Rightarrow> string \<Rightarrow> string \<Rightarrow> (string \<times> string) list \<Rightarrow> world
     \<Rightarrow> (error + program_t) \<times> world"
where
  "create_pairs lib program_name cuda_source headers w =
     (let num_headers = length headers;
          header_names = map fst headers;
          header_sources = map snd headers
      in program_t_ctor lib cuda_source program_name num_headers header_names header_sources w)"

definition create ::
  "nvrtc_library \<Rightarrow> string \<Rightarrow> string \<Rightarrow> world \<Rightarrow> (error + program_t) \<times> world"
where
  "create lib program_name cuda_source w = program_t_ctor lib program_name cuda_source 0 [] [] w"

section \<open>Const qualification\<close>

text \<open>
  Whether a member function is declared \<^verbatim>\<open>const\<close>, read off the declarations. A
  member function can be called through a const proxy only if it is.
\<close>

datatype member_function =
    M_program_compile
  | M_program_register_name_for_lookup
  | M_kernel_set_attribute
  | M_kernel_set_maximum_dynamic_shared_memory_per_block
  | M_kernel_set_cache_preference
  | M_kernel_set_shared_memory_bank_size
  | M_event_record

fun const_qualified :: "member_function \<Rightarrow> bool" where
  "const_qualified M_program_compile = True"
| "const_qualified M_program_register_name_for_lookup = False"
| "const_qualified M_kernel_set_attribute = True"
| "const_qualified M_kernel_set_maximum_dynamic_shared_memory_per_block = True"
| "const_qualified M_kernel_set_cache_preference = False"
| "const_qualified M_kernel_set_shared_memory_bank_size = False"
| "const_qualified M_event_record = True"

definition callable_on_const_proxy :: "member_function \<Rightarrow> bool" where
  "callable_on_const_proxy m = const_qualified m"

section \<open>What the platform promises\<close>

text \<open>
  The calls on an event that move it to another state in the state machine of the
  specification (idle, pending, occurred): recording it and destroying it. Querying and
  synchronising read the state and are not among them.
\<close>

fun records_or_destroys :: "handle \<Rightarrow> native_call \<Rightarrow> bool" where
  "records_or_destroys h (Call_cuEventRecord e s) = (e = h)"
| "records_or_destroys h (Call_cuEventDestroy e) = (e = h)"
| "records_or_destroys h _ = False"

definition state_changing_calls :: "handle \<Rightarrow> history \<Rightarrow> history" where
  "state_changing_calls h tr = filter (records_or_destroys h) tr"

text \<open>
  Modelled from the spec: the behaviour of \<^verbatim>\<open>cuEventQuery\<close> on an event that was
  created and never recorded belongs to the CUDA driver. The specification defines an
  unrecorded event to read as occurred: once \<^verbatim>\<open>cuEventCreate\<close> has returned a handle
  with success, a query of that handle reports success for as long as the calls made
  since then neither record nor destroy it.
\<close>

definition unrecorded_event_reads_occurred :: "cuda_driver \<Rightarrow> bool" where
  "unrecorded_event_reads_occurred drv =
     (\<forall>tr flags later.
        fst (cuEventCreate drv tr flags) = success \<longrightarrow>
        state_changing_calls (snd (cuEventCreate drv tr flags)) later = [] \<longrightarrow>
        cuEventQuery drv (tr @ Call_cuEventCreate flags # later) (snd (cuEventCreate drv tr flags))
          = success)"

fun compiles :: "handle \<Rightarrow> native_call \<Rightarrow> bool" where
  "compiles h (Call_nvrtcCompileProgram p options) = (p = h)"
| "compiles h _ = False"

definition compile_attempted :: "history \<Rightarrow> handle \<Rightarrow> bool" where
  "compile_attempted tr h = list_ex (compiles h) tr"

text \<open>
  Modelled from the spec: what NVRTC answers to a size query on a program that was never
  compiled belongs to NVRTC. The specification (and the comments on \<^verbatim>\<open>ptx()\<close> and
  \<^verbatim>\<open>cubin()\<close>: "This will fail if the program has never been compiled") has the
  accessors fail there, which they can only do if the size query does not report
  success.
\<close>

definition artifacts_need_compilation :: "nvrtc_library \<Rightarrow> bool" where
  "artifacts_need_compilation lib =
     (\<forall>tr h. \<not> compile_attempted tr h \<longrightarrow>
        fst (nvrtcGetPTXSize lib tr h) \<noteq> NVRTC_SUCCESS
        \<and> fst (nvrtcGetCUBINSize lib tr h) \<noteq> NVRTC_SUCCESS
        \<and> fst (nvrtcGetNVVMSize lib tr h) \<noteq> NVRTC_SUCCESS)"

text \<open>
  Modelled from the spec: the occupancy heuristic is
  \<^verbatim>\<open>cuOccupancyMaxPotentialBlockSizeWithFlags\<close> of the CUDA driver. The specification
  bounds the block size it returns: a block size is not negative; with a positive limit
  it is at most the limit; with the limit 0 (no limit) it is at most the kernel's
  maximum number of threads per block, which is what \<^verbatim>\<open>cuFuncGetAttribute\<close> answers
  for \<^verbatim>\<open>CU_FUNC_ATTRIBUTE_MAX_THREADS_PER_BLOCK\<close>.
\<close>

definition occupancy_within_limits :: "cuda_driver \<Rightarrow> bool" where
  "occupancy_within_limits drv =
     (\<forall>tr h determiner fixed limit flags.
        (case cuOccupancyMaxPotentialBlockSizeWithFlags drv tr h determiner fixed limit flags of
           (st, min_grid_size, block_size) \<Rightarrow>
             st = success \<longrightarrow>
               0 \<le> sint block_size
               \<and> (0 < sint limit \<longrightarrow> sint block_size \<le> sint limit)
               \<and> (limit = 0 \<longrightarrow>
                    (case cuFuncGetAttribute drv tr CU_FUNC_ATTRIBUTE_MAX_THREADS_PER_BLOCK h of
                       (st', max_threads) \<Rightarrow>
                         st' = success \<longrightarrow> sint block_size \<le> sint max_threads))))"

section \<open>Sample platforms\<close>

text \<open>
  A driver on which everything succeeds: handles are numbered by the length of the
  history, an event is pending from its recording on, and the occupancy heuristic
  answers the limit, capped at 1024 threads.
\<close>

definition sample_query :: "history \<Rightarrow> handle \<Rightarrow> status_t" where
  "sample_query tr h =
     (case rev (state_changing_calls h (drop h tr)) of
        [] \<Rightarrow> success
      | Call_cuEventDestroy _ # _ \<Rightarrow> other_status 400
      | _ # _ \<Rightarrow> not_ready)"

definition sample_block_size :: "c_int \<Rightarrow> c_int" where
  "sample_block_size limit =
     (if sint limit < 0 then 0 else if limit = 0 \<or> 1024 \<le> sint limit then 1024 else limit)"

definition sample_driver :: cuda_driver where
  "sample_driver =
     \<lparr>CUDART_VERSION = 11000,
      cuEventCreate = (\<lambda>tr flags. (success, Suc (length tr))),
      cuEventDestroy = (\<lambda>tr h. success),
      cuEventQuery = sample_query,
      cuEventRecord = (\<lambda>tr h s. success),
      cuEventSynchronize = (\<lambda>tr h. success),
      cuFuncGetAttribute = (\<lambda>tr a h. (success, 1024)),
      cuFuncSetCacheConfig = (\<lambda>tr h c. success),
      cuFuncSetSharedMemConfig = (\<lambda>tr h c. success),
      cuOccupancyMaxPotentialBlockSizeWithFlags =
        (\<lambda>tr h determiner fixed limit flags. (success, 8, sample_block_size limit))\<rparr>"

text \<open>The same driver with a device that has been lost: waiting and reading fail.\<close>

definition failing_driver :: cuda_driver where
  "failing_driver =
     sample_driver\<lparr>cuEventSynchronize := (\<lambda>tr h. other_status 700),
                   cuEventQuery := (\<lambda>tr h. other_status 700),
                   cuFuncGetAttribute := (\<lambda>tr a h. (other_status 700, 0))\<rparr>"

text \<open>
  An NVRTC on which everything succeeds, and which has artifacts for a program once a
  compilation of it was attempted.
\<close>

definition sample_artifact :: "nat \<Rightarrow> history \<Rightarrow> handle \<Rightarrow> nvrtc_status \<times> nat" where
  "sample_artifact n tr h =
     (if compile_attempted tr h then (NVRTC_SUCCESS, n) else (NVRTC_ERROR_INVALID_PROGRAM, 0))"

definition sample_nvrtc :: nvrtc_library where
  "sample_nvrtc =
     \<lparr>nvrtcCreateProgram = (\<lambda>tr src name n sources names. (NVRTC_SUCCESS, Suc (length tr))),
      nvrtcDestroyProgram = (\<lambda>tr h. NVRTC_SUCCESS),
      nvrtcCompileProgram = (\<lambda>tr h options. NVRTC_SUCCESS),
      nvrtcAddNameExpression = (\<lambda>tr h name. NVRTC_SUCCESS),
      nvrtcGetPTXSize = sample_artifact 3,
      nvrtcGetPTX = (\<lambda>tr h. (NVRTC_SUCCESS, ''ptx'')),
      nvrtcGetCUBINSize = sample_artifact 5,
      nvrtcGetCUBIN = (\<lambda>tr h. (NVRTC_SUCCESS, ''cubin'')),
      nvrtcGetNVVMSize = sample_artifact 4,
      nvrtcGetNVVM = (\<lambda>tr h. (NVRTC_SUCCESS, ''nvvm''))\<rparr>"

text \<open>The same library, except that it refuses to destroy a program.\<close>

definition failing_nvrtc :: nvrtc_library where
  "failing_nvrtc = sample_nvrtc\<lparr>nvrtcDestroyProgram := (\<lambda>tr h. NVRTC_ERROR_INVALID_PROGRAM)\<rparr>"

text \<open>The same library, compiling for a virtual architecture only: the CUBIN is empty.\<close>

definition virtual_nvrtc :: nvrtc_library where
  "virtual_nvrtc = sample_nvrtc\<lparr>nvrtcGetCUBINSize := sample_artifact 0,
                                nvrtcGetPTXSize := sample_artifact 0\<rparr>"

text \<open>The same library, reporting every artifact of a compiled program as empty.\<close>

definition empty_nvrtc :: nvrtc_library where
  "empty_nvrtc = sample_nvrtc\<lparr>nvrtcGetPTXSize := sample_artifact 0,
                              nvrtcGetCUBINSize := sample_artifact 0,
                              nvrtcGetNVVMSize := sample_artifact 0\<rparr>"

definition initial_world :: world where
  "initial_world = \<lparr>trace = [], ctx_stack = []\<rparr>"

section \<open>Basic facts about the world\<close>

lemma trace_issue: "trace (issue c w) = trace w @ [c]"
  by (simp add: issue_def)

lemma ctx_stack_issue: "ctx_stack (issue c w) = ctx_stack w"
  by (simp add: issue_def)

lemma trace_scoped_override_t_ctor: "trace (scoped_override_t_ctor c w) = trace w"
  by (simp add: scoped_override_t_ctor_def)

lemma trace_scoped_override_t_dtor: "trace (scoped_override_t_dtor w) = trace w"
  by (simp add: scoped_override_t_dtor_def)

lemma ctx_stack_scoped_override_t_ctor: "ctx_stack (scoped_override_t_ctor c w) = c # ctx_stack w"
  by (simp add: scoped_override_t_ctor_def)

lemma ctx_stack_scoped_override_t_dtor: "ctx_stack (scoped_override_t_dtor w) = tl (ctx_stack w)"
  by (simp add: scoped_override_t_dtor_def)

lemma override_round_trip: "scoped_override_t_dtor (issue c (scoped_override_t_ctor x w)) = issue c w"
  by (simp add: scoped_override_t_dtor_def scoped_override_t_ctor_def issue_def)

section \<open>Ownership: destruction, move and copy\<close>

lemma event_t_dtor_releases_iff_owning:
  "trace (snd (event_t_dtor drv e w)) =
     (if event_t_owning e then trace w @ [Call_cuEventDestroy (event_t_handle e)] else trace w)"
  by (simp add: event_t_dtor_def trace_issue)

lemma event_t_dtor_swallows: "fst (event_t_dtor drv e w) = Inr ()"
  by (simp add: event_t_dtor_def)

lemma program_t_dtor_releases_iff_owning:
  "trace (snd (program_t_dtor lib p w)) =
     (if program_t_owning p then trace w @ [Call_nvrtcDestroyProgram (program_t_handle p)] else trace w)"
  by (simp add: program_t_dtor_def trace_issue)

lemma program_t_dtor_result:
  "fst (program_t_dtor lib p w) =
     (if program_t_owning p then rtc_throw_if_error (nvrtcDestroyProgram lib (trace w) (program_t_handle p))
      else Inr ())"
  by (simp add: program_t_dtor_def)

text \<open>
  Claim C1 (destructors release iff owning and swallow a failed release). Both
  destructors issue the native destroy call exactly when the proxy is owning
  (\<open>event_t_dtor_releases_iff_owning\<close>, \<open>program_t_dtor_releases_iff_owning\<close>), and
  \<^verbatim>\<open>~event_t()\<close> drops the status (\<open>event_t_dtor_swallows\<close>). \<^verbatim>\<open>~program_t()\<close> does
  not: it passes the status of \<^verbatim>\<open>nvrtcDestroyProgram\<close> to \<^verbatim>\<open>throw_if_error\<close>. On an
  NVRTC that refuses to destroy the program, destroying an owning program proxy throws
  inside the destructor.
\<close>

theorem program_t_dtor_raises:
  "program_t_dtor failing_nvrtc
       \<lparr>program_t_handle = 7, program_t_name = ''p'', program_t_owning = True\<rparr> initial_world
   = (Inl (rtc_runtime_error NVRTC_ERROR_INVALID_PROGRAM),
      \<lparr>trace = [Call_nvrtcDestroyProgram 7], ctx_stack = []\<rparr>)"
  by (simp add: program_t_dtor_def failing_nvrtc_def sample_nvrtc_def initial_world_def
        rtc_throw_if_error_def issue_def)

text \<open>
  Claim C2 (ownership uniqueness under move). Let \<open>P\<close> be an owning event and \<open>Q\<close> an
  owning program, move-constructed into \<open>T\<close> and \<open>U\<close>, and left behind as \<open>P'\<close> and
  \<open>Q'\<close>. Destroying the moved-from object changes nothing in the world: no native call
  is issued. Destroying the move target issues the one destroy call for the handle.
  Destroying both, in either order, issues that call exactly once.
\<close>

theorem moved_from_proxy_releases_nothing:
  assumes "event_t_owning P" and "construct_from event_t_move P = Some (T, P')"
      and "program_t_owning Q" and "construct_from program_t_move Q = Some (U, Q')"
  shows "available event_t_move \<and> available program_t_move
       \<and> snd (event_t_dtor drv P' w) = w
       \<and> trace (snd (event_t_dtor drv T w)) = trace w @ [Call_cuEventDestroy (event_t_handle P)]
       \<and> trace (snd (event_t_dtor drv T (snd (event_t_dtor drv P' w))))
           = trace w @ [Call_cuEventDestroy (event_t_handle P)]
       \<and> trace (snd (event_t_dtor drv P' (snd (event_t_dtor drv T w))))
           = trace w @ [Call_cuEventDestroy (event_t_handle P)]
       \<and> snd (program_t_dtor lib Q' w) = w
       \<and> trace (snd (program_t_dtor lib U w))
           = trace w @ [Call_nvrtcDestroyProgram (program_t_handle Q)]
       \<and> trace (snd (program_t_dtor lib U (snd (program_t_dtor lib Q' w))))
           = trace w @ [Call_nvrtcDestroyProgram (program_t_handle Q)]
       \<and> trace (snd (program_t_dtor lib Q' (snd (program_t_dtor lib U w))))
           = trace w @ [Call_nvrtcDestroyProgram (program_t_handle Q)]"
proof -
  from assms(2) have T: "T = event_t_ctor (event_t_device_id P) (event_t_context_handle P)
                               (event_t_handle P) (event_t_owning P)"
    and P': "P' = P\<lparr>event_t_owning := False\<rparr>"
    by (simp_all add: event_t_move_def)
  from assms(4) have U: "program_t_handle U = program_t_handle Q" "program_t_owning U = program_t_owning Q"
    and Q': "Q' = Q\<lparr>program_t_owning := False\<rparr>"
    by (auto simp add: program_t_move_def)
  have ev: "snd (event_t_dtor drv P' w) = w"
      "\<And>w. trace (snd (event_t_dtor drv T w)) = trace w @ [Call_cuEventDestroy (event_t_handle P)]"
      "\<And>w. trace (snd (event_t_dtor drv P' w)) = trace w"
    using assms(1) by (simp_all add: T P' event_t_ctor_def event_t_dtor_def trace_issue)
  have pr: "snd (program_t_dtor lib Q' w) = w"
      "\<And>w. trace (snd (program_t_dtor lib U w)) = trace w @ [Call_nvrtcDestroyProgram (program_t_handle Q)]"
      "\<And>w. trace (snd (program_t_dtor lib Q' w)) = trace w"
    using assms(3) by (simp_all add: U Q' program_t_dtor_def trace_issue)
  have av: "available event_t_move" "available program_t_move"
    by (simp_all add: event_t_move_def program_t_move_def)
  show ?thesis
    by (simp add: ev pr av)
qed

text \<open>
  The theorem at an owning event with handle 2 and an owning program with handle 7.
\<close>

theorem moved_from_proxy_releases_nothing_witness:
  "snd (event_t_dtor sample_driver (event_wrap 0 1 2 False) initial_world) = initial_world
   \<and> trace (snd (event_t_dtor sample_driver (event_wrap 0 1 2 True) initial_world))
       = [Call_cuEventDestroy 2]
   \<and> trace (snd (program_t_dtor failing_nvrtc
               \<lparr>program_t_handle = 7, program_t_name = ''p'', program_t_owning = True\<rparr>
               (snd (program_t_dtor failing_nvrtc
                       \<lparr>program_t_handle = 7, program_t_name = ''p'', program_t_owning = False\<rparr>
                       initial_world))))
       = [Call_nvrtcDestroyProgram 7]"
proof -
  have h1: "event_t_owning (event_wrap 0 1 2 True)"
    by (simp add: event_wrap_def event_t_ctor_def)
  have h2: "construct_from event_t_move (event_wrap 0 1 2 True)
              = Some (event_wrap 0 1 2 True, event_wrap 0 1 2 False)"
    by (simp add: event_t_move_def event_wrap_def event_t_ctor_def)
  have h3: "program_t_owning \<lparr>program_t_handle = 7, program_t_name = ''p'', program_t_owning = True\<rparr>"
    by simp
  have h4: "construct_from program_t_move
              \<lparr>program_t_handle = 7, program_t_name = ''p'', program_t_owning = True\<rparr>
            = Some (\<lparr>program_t_handle = 7, program_t_name = ''p'', program_t_owning = True\<rparr>,
                    \<lparr>program_t_handle = 7, program_t_name = ''p'', program_t_owning = False\<rparr>)"
    by (simp add: program_t_move_def)
  show ?thesis
    using moved_from_proxy_releases_nothing [OF h1 h2 h3 h4, of sample_driver initial_world failing_nvrtc]
    by (simp add: initial_world_def event_wrap_def event_t_ctor_def)
qed

text \<open>
  Claim C3, as stated, says that copy construction is available on every proxy type. It
  is not: \<^verbatim>\<open>program_t(const program_t&) = delete\<close>. There is no copy of a program proxy.
\<close>

theorem program_t_copy_unavailable:
  "construct_from program_t_copy
     \<lparr>program_t_handle = 7, program_t_name = ''p'', program_t_owning = True\<rparr> = None"
  by (simp add: program_t_copy_def)

text \<open>
  Claim C3, amended. Copy construction is available on event and kernel proxies, and is
  deleted on program proxies. The copy of an event \<open>x\<close>, owning or not, has the handle,
  the device id and the context handle of \<open>x\<close> and is not owning, so that its destructor
  releases nothing, and \<open>x\<close> itself is unchanged. The copy of a kernel proxy, which has
  no owning flag, is equal to the original.
\<close>

theorem copy_is_non_owning_alias:
  "(\<exists>c x'. construct_from event_t_copy x = Some (c, x')
        \<and> event_t_handle c = event_t_handle x
        \<and> event_t_device_id c = event_t_device_id x
        \<and> event_t_context_handle c = event_t_context_handle x
        \<and> \<not> event_t_owning c
        \<and> x' = x
        \<and> snd (event_t_dtor drv c w) = w)
   \<and> construct_from kernel_t_copy k = Some (k, k)
   \<and> \<not> available program_t_copy"
  by (simp add: event_t_copy_def event_t_ctor_def kernel_t_copy_def program_t_copy_def
        event_t_dtor_def)

section \<open>Context discipline\<close>

lemma synchronize_world: "snd (synchronize drv e w) = issue (Call_cuEventSynchronize (event_t_handle e)) w"
  by (simp add: synchronize_def Let_def override_round_trip)

lemma synchronize_result:
  "fst (synchronize drv e w) = throw_if_error (cuEventSynchronize drv (trace w) (event_t_handle e))"
  by (simp add: synchronize_def Let_def trace_scoped_override_t_ctor)

lemma get_attribute_world:
  "snd (get_attribute drv k a w) = issue (Call_cuFuncGetAttribute a (kernel_t_handle k)) w"
  by (simp add: get_attribute_def get_attribute_in_current_context_def Let_def split_def
        override_round_trip split: sum.split)

lemma get_attribute_result:
  "fst (get_attribute drv k a w) =
     (case throw_if_error (fst (cuFuncGetAttribute drv (trace w) a (kernel_t_handle k))) of
        Inl e \<Rightarrow> Inl e
      | Inr _ \<Rightarrow> Inr (snd (cuFuncGetAttribute drv (trace w) a (kernel_t_handle k))))"
  by (simp add: get_attribute_def get_attribute_in_current_context_def Let_def split_def
        trace_scoped_override_t_ctor split: sum.split)

lemma event_create_world:
  "snd (event_create drv d c b t i w) = issue (Call_cuEventCreate (make_flags b t i)) w"
  by (simp add: event_create_def create_in_current_context_def Let_def split_def
        override_round_trip split: sum.split)

lemma set_cache_preference_world:
  "snd (snd (set_cache_preference drv k pref w)) = issue (Call_cuFuncSetCacheConfig (kernel_t_handle k) pref) w"
  by (simp add: set_cache_preference_def Let_def override_round_trip)

lemma set_shared_memory_bank_size_world:
  "snd (snd (set_shared_memory_bank_size drv k cfg w)) = issue (Call_cuFuncSetSharedMemConfig (kernel_t_handle k) cfg) w"
  by (simp add: set_shared_memory_bank_size_def Let_def override_round_trip)

text \<open>
  Claim C4 (context restoration). Around \<^verbatim>\<open>cuda::synchronize(event)\<close> and
  \<^verbatim>\<open>kernel_t::get_attribute\<close> the stack of current contexts, and so the current
  context, is after the call what it was before, whatever the driver answers; on a
  driver where the wrapped native call fails, the wrapper throws and the stack is
  restored all the same. Nested overrides restore in LIFO order: with \<open>c1\<close> installed
  and then \<open>c2\<close>, the current context is \<open>c2\<close>, it still is after a wrapped operation,
  it is \<open>c1\<close> after the inner override is destroyed, and the world is as it was after
  the outer one is destroyed.
\<close>

theorem context_restored_on_every_exit:
  "ctx_stack (snd (synchronize drv e w)) = ctx_stack w
   \<and> current_context (snd (synchronize drv e w)) = current_context w
   \<and> ctx_stack (snd (get_attribute drv k a w)) = ctx_stack w
   \<and> current_context (snd (get_attribute drv k a w)) = current_context w
   \<and> fst (synchronize failing_driver e w) = Inl (runtime_error (other_status 700))
   \<and> ctx_stack (snd (synchronize failing_driver e w)) = ctx_stack w
   \<and> fst (get_attribute failing_driver k a w) = Inl (runtime_error (other_status 700))
   \<and> ctx_stack (snd (get_attribute failing_driver k a w)) = ctx_stack w
   \<and> current_context (scoped_override_t_ctor c2 (scoped_override_t_ctor c1 w)) = Some c2
   \<and> current_context (snd (synchronize drv e (scoped_override_t_ctor c2 (scoped_override_t_ctor c1 w))))
       = Some c2
   \<and> current_context (scoped_override_t_dtor (scoped_override_t_ctor c2 (scoped_override_t_ctor c1 w)))
       = Some c1
   \<and> scoped_override_t_dtor
         (scoped_override_t_dtor (scoped_override_t_ctor c2 (scoped_override_t_ctor c1 w))) = w"
  by (simp add: synchronize_world synchronize_result get_attribute_world get_attribute_result
        current_context_def ctx_stack_issue failing_driver_def sample_driver_def throw_if_error_def
        scoped_override_t_ctor_def scoped_override_t_dtor_def)

section \<open>Querying an event\<close>

lemma has_occurred_world: "snd (has_occurred drv e w) = issue (Call_cuEventQuery (event_t_handle e)) w"
  by (simp add: has_occurred_def Let_def)

lemma state_changing_calls_append:
  "state_changing_calls h (tr @ tr') = state_changing_calls h tr @ state_changing_calls h tr'"
  by (simp add: state_changing_calls_def)

lemma create_in_current_context_Inr:
  assumes "create_in_current_context drv d c b t i w0 = (Inr e, w)"
  shows "fst (cuEventCreate drv (trace w0) (make_flags b t i)) = success"
    and "event_t_handle e = snd (cuEventCreate drv (trace w0) (make_flags b t i))"
    and "trace w = trace w0 @ [Call_cuEventCreate (make_flags b t i)]"
    and "event_t_owning e"
  using assms
  by (auto simp add: create_in_current_context_def Let_def split_def throw_if_error_def
        event_wrap_def event_t_ctor_def trace_issue split: if_splits)

text \<open>
  Claim C5 (\<^verbatim>\<open>has_occurred\<close> and \<^verbatim>\<open>query\<close>). The result is true when
  \<^verbatim>\<open>cuEventQuery\<close> reports success, false when it reports not-ready, and the exception
  carrying the native status for any other status; \<^verbatim>\<open>query\<close> is the same function.
  Querying issues the one call \<^verbatim>\<open>cuEventQuery\<close> and nothing else: the context stack
  stays as it is and, for every event \<open>h\<close>, the calls that change its state (recording,
  destroying) are the same before and after. On a driver that reads an unrecorded event
  as occurred, an event made by \<^verbatim>\<open>create_in_current_context\<close> reads as occurred for
  as long as the calls made since (\<open>later\<close>) neither record nor destroy it.
\<close>

theorem has_occurred_reads_native_status:
  "(cuEventQuery drv (trace w) (event_t_handle e) = success \<longrightarrow> fst (has_occurred drv e w) = Inr True)
   \<and> (cuEventQuery drv (trace w) (event_t_handle e) = not_ready \<longrightarrow>
        fst (has_occurred drv e w) = Inr False)
   \<and> (cuEventQuery drv (trace w) (event_t_handle e) \<noteq> success \<longrightarrow>
      cuEventQuery drv (trace w) (event_t_handle e) \<noteq> not_ready \<longrightarrow>
        fst (has_occurred drv e w)
          = Inl (runtime_error (cuEventQuery drv (trace w) (event_t_handle e))))
   \<and> query drv e w = has_occurred drv e w
   \<and> trace (snd (has_occurred drv e w)) = trace w @ [Call_cuEventQuery (event_t_handle e)]
   \<and> ctx_stack (snd (has_occurred drv e w)) = ctx_stack w
   \<and> state_changing_calls h (trace (snd (has_occurred drv e w))) = state_changing_calls h (trace w)
   \<and> (unrecorded_event_reads_occurred drv \<longrightarrow>
      create_in_current_context drv d c b t i w0 = (Inr e, w1) \<longrightarrow>
      trace w = trace w1 @ later \<longrightarrow>
      state_changing_calls (event_t_handle e) later = [] \<longrightarrow>
        fst (has_occurred drv e w) = Inr True)"
proof -
  have fresh: "fst (has_occurred drv e w) = Inr True"
    if c: "unrecorded_event_reads_occurred drv"
      and cr: "create_in_current_context drv d c b t i w0 = (Inr e, w1)"
      and tr: "trace w = trace w1 @ later"
      and un: "state_changing_calls (event_t_handle e) later = []"
  proof -
    note facts = create_in_current_context_Inr [OF cr]
    have "cuEventQuery drv (trace w0 @ Call_cuEventCreate (make_flags b t i) # later)
            (snd (cuEventCreate drv (trace w0) (make_flags b t i))) = success"
      using c facts(1) un unfolding unrecorded_event_reads_occurred_def facts(2) by blast
    then have "cuEventQuery drv (trace w) (event_t_handle e) = success"
      by (simp add: tr facts(2,3))
    then show ?thesis
      by (simp add: has_occurred_def Let_def)
  qed
  show ?thesis
    using fresh
    by (simp add: has_occurred_world trace_issue ctx_stack_issue state_changing_calls_append
          query_def) (simp add: has_occurred_def Let_def state_changing_calls_def)
qed

lemma sample_driver_unrecorded: "unrecorded_event_reads_occurred sample_driver"
  by (simp add: unrecorded_event_reads_occurred_def sample_driver_def sample_query_def)

text \<open>
  The theorem on the sample driver: a fresh event reads as occurred, a recorded one as
  pending, and on the driver with the lost device the query throws.
\<close>

theorem has_occurred_reads_native_status_witness:
  "fst (has_occurred sample_driver (event_wrap 0 5 1 True)
          \<lparr>trace = [Call_cuEventCreate 0], ctx_stack = []\<rparr>) = Inr True
   \<and> fst (has_occurred sample_driver (event_wrap 0 5 1 True)
          \<lparr>trace = [Call_cuEventCreate 0, Call_cuEventRecord 1 0], ctx_stack = []\<rparr>) = Inr False
   \<and> fst (has_occurred failing_driver (event_wrap 0 5 1 True)
          \<lparr>trace = [Call_cuEventCreate 0], ctx_stack = []\<rparr>) = Inl (runtime_error (other_status 700))"
proof -
  let ?e = "event_wrap 0 5 1 True"
  let ?w1 = "\<lparr>trace = [Call_cuEventCreate 0], ctx_stack = []\<rparr>"
  let ?w2 = "\<lparr>trace = [Call_cuEventCreate 0, Call_cuEventRecord 1 0], ctx_stack = []\<rparr>"
  have created: "create_in_current_context sample_driver 0 5 False True False initial_world = (Inr ?e, ?w1)"
    by (simp add: create_in_current_context_def make_flags_def sample_driver_def throw_if_error_def
          issue_def initial_world_def)
  have tr: "trace ?w1 = trace ?w1 @ []"
    by simp
  have un: "state_changing_calls (event_t_handle ?e) [] = []"
    by (simp add: state_changing_calls_def)
  have pending: "cuEventQuery sample_driver (trace ?w2) (event_t_handle ?e) = not_ready"
    by (simp add: sample_driver_def sample_query_def event_wrap_def event_t_ctor_def
          state_changing_calls_def)
  have lost: "cuEventQuery failing_driver (trace ?w1) (event_t_handle ?e) \<noteq> success"
      "cuEventQuery failing_driver (trace ?w1) (event_t_handle ?e) \<noteq> not_ready"
      "cuEventQuery failing_driver (trace ?w1) (event_t_handle ?e) = other_status 700"
    by (simp_all add: failing_driver_def)
  show ?thesis
    using has_occurred_reads_native_status
            [of sample_driver ?w1 ?e 0 0 5 False True False initial_world ?w1 "[]"]
          has_occurred_reads_native_status [of sample_driver ?w2 ?e]
          has_occurred_reads_native_status [of failing_driver ?w1 ?e]
          sample_driver_unrecorded created tr un pending lost
    by simp
qed

section \<open>Compiled artifacts\<close>

lemma length_written_into: "length (written_into buf bytes) = length buf"
  by (simp add: written_into_def)

lemma written_into_exact: "length bytes = length buf \<Longrightarrow> written_into buf bytes = bytes"
  by (simp add: written_into_def)

lemma length_dynarray: "length (dynarray n) = n"
  by (simp add: dynarray_def)

lemma ptx_fails:
  "fst (nvrtcGetPTXSize lib (trace w) (program_t_handle p)) \<noteq> NVRTC_SUCCESS \<Longrightarrow> isl (fst (ptx lib p w))"
  by (simp add: ptx_def Let_def split_def rtc_throw_if_error_def)

lemma cubin_fails:
  "fst (nvrtcGetCUBINSize lib (trace w) (program_t_handle p)) \<noteq> NVRTC_SUCCESS \<Longrightarrow> isl (fst (cubin lib p w))"
  by (simp add: cubin_def Let_def split_def rtc_throw_if_error_def)

lemma nvvm_fails:
  "fst (nvrtcGetNVVMSize lib (trace w) (program_t_handle p)) \<noteq> NVRTC_SUCCESS \<Longrightarrow> isl (fst (nvvm lib p w))"
  by (simp add: nvvm_def Let_def split_def rtc_throw_if_error_def)

lemma cubin_empty_iff:
  "(fst (cubin lib p w) = Inl invalid_argument)
     = (nvrtcGetCUBINSize lib (trace w) (program_t_handle p) = (NVRTC_SUCCESS, 0))"
  by (auto simp add: cubin_def Let_def split_def rtc_throw_if_error_def prod_eq_iff
        split: if_splits)

lemma cubin_Inr:
  assumes "fst (cubin lib p w) = Inr bytes"
  shows "length bytes = snd (nvrtcGetCUBINSize lib (trace w) (program_t_handle p))"
    and "bytes = written_into (dynarray (snd (nvrtcGetCUBINSize lib (trace w) (program_t_handle p))))
                   (snd (nvrtcGetCUBIN lib (trace w @ [Call_nvrtcGetCUBINSize (program_t_handle p)])
                           (program_t_handle p)))"
  using assms
  by (auto simp add: cubin_def Let_def split_def rtc_throw_if_error_def trace_issue
        length_written_into length_dynarray split: if_splits)

lemma ptx_Inr:
  assumes "fst (ptx lib p w) = Inr bytes"
  shows "length bytes = snd (nvrtcGetPTXSize lib (trace w) (program_t_handle p))"
    and "bytes = written_into (dynarray (snd (nvrtcGetPTXSize lib (trace w) (program_t_handle p))))
                   (snd (nvrtcGetPTX lib (trace w @ [Call_nvrtcGetPTXSize (program_t_handle p)])
                           (program_t_handle p)))"
  using assms
  by (auto simp add: ptx_def Let_def split_def rtc_throw_if_error_def trace_issue
        length_written_into length_dynarray split: if_splits)

lemma nvvm_Inr:
  assumes "fst (nvvm lib p w) = Inr bytes"
  shows "length bytes = snd (nvrtcGetNVVMSize lib (trace w) (program_t_handle p))"
    and "bytes = written_into (dynarray (snd (nvrtcGetNVVMSize lib (trace w) (program_t_handle p))))
                   (snd (nvrtcGetNVVM lib (trace w @ [Call_nvrtcGetNVVMSize (program_t_handle p)])
                           (program_t_handle p)))"
  using assms
  by (auto simp add: nvvm_def Let_def split_def rtc_throw_if_error_def trace_issue
        length_written_into length_dynarray split: if_splits)

lemma ptx_returns:
  assumes "nvrtcGetPTXSize lib (trace w) (program_t_handle p) = (NVRTC_SUCCESS, sz)"
    and "nvrtcGetPTX lib (trace w @ [Call_nvrtcGetPTXSize (program_t_handle p)]) (program_t_handle p)
           = (NVRTC_SUCCESS, bytes)"
  shows "ptx lib p w
         = (Inr (written_into (dynarray sz) bytes),
            issue (Call_nvrtcGetPTX (program_t_handle p))
              (issue (Call_nvrtcGetPTXSize (program_t_handle p)) w))"
  using assms by (simp add: ptx_def rtc_throw_if_error_def trace_issue)

lemma cubin_returns:
  assumes "nvrtcGetCUBINSize lib (trace w) (program_t_handle p) = (NVRTC_SUCCESS, sz)"
    and "sz \<noteq> 0"
    and "nvrtcGetCUBIN lib (trace w @ [Call_nvrtcGetCUBINSize (program_t_handle p)]) (program_t_handle p)
           = (NVRTC_SUCCESS, bytes)"
  shows "cubin lib p w
         = (Inr (written_into (dynarray sz) bytes),
            issue (Call_nvrtcGetCUBIN (program_t_handle p))
              (issue (Call_nvrtcGetCUBINSize (program_t_handle p)) w))"
  using assms by (simp add: cubin_def rtc_throw_if_error_def trace_issue)

lemma nvvm_returns:
  assumes "nvrtcGetNVVMSize lib (trace w) (program_t_handle p) = (NVRTC_SUCCESS, sz)"
    and "nvrtcGetNVVM lib (trace w @ [Call_nvrtcGetNVVMSize (program_t_handle p)]) (program_t_handle p)
           = (NVRTC_SUCCESS, bytes)"
  shows "nvvm lib p w
         = (Inr (written_into (dynarray sz) bytes),
            issue (Call_nvrtcGetNVVM (program_t_handle p))
              (issue (Call_nvrtcGetNVVMSize (program_t_handle p)) w))"
  using assms by (simp add: nvvm_def rtc_throw_if_error_def trace_issue)

lemma written_into_dynarray: "length bytes = sz \<Longrightarrow> written_into (dynarray sz) bytes = bytes"
  by (simp add: written_into_exact length_dynarray)

text \<open>
  Claim C6 (artifact accessors). On an NVRTC whose size queries do not succeed before a
  compilation was attempted, \<^verbatim>\<open>ptx()\<close>, \<^verbatim>\<open>cubin()\<close> and \<^verbatim>\<open>nvvm()\<close> all fail when
  the history holds no compilation of the program. \<^verbatim>\<open>cubin()\<close> throws
  \<^verbatim>\<open>invalid_argument\<close>, its empty-artifact error, exactly when the size query
  succeeds and reports 0. Every accessor does return when the platform lets it: if the
  size query succeeds with size \<open>sz\<close> (not 0, for \<^verbatim>\<open>cubin()\<close>) and the getter called
  after it succeeds with \<open>bytes\<close>, the accessor returns the fresh buffer of \<open>sz\<close>
  bytes with \<open>bytes\<close> written into it, which is \<open>bytes\<close> itself when the platform
  delivers as many bytes as it reported, and it has issued the size query and the
  getter, in this order. Conversely, whatever an accessor returns has the reported size
  and is what the getter wrote into the buffer.
\<close>

theorem artifact_accessors:
  assumes "artifacts_need_compilation lib"
  shows "(\<not> compile_attempted (trace w) (program_t_handle p) \<longrightarrow>
            isl (fst (ptx lib p w)) \<and> isl (fst (cubin lib p w)) \<and> isl (fst (nvvm lib p w)))
       \<and> ((fst (cubin lib p w) = Inl invalid_argument)
            = (nvrtcGetCUBINSize lib (trace w) (program_t_handle p) = (NVRTC_SUCCESS, 0)))
       \<and> (nvrtcGetPTXSize lib (trace w) (program_t_handle p) = (NVRTC_SUCCESS, psz) \<longrightarrow>
          nvrtcGetPTX lib (trace w @ [Call_nvrtcGetPTXSize (program_t_handle p)]) (program_t_handle p)
            = (NVRTC_SUCCESS, pbytes) \<longrightarrow>
            ptx lib p w
              = (Inr (written_into (dynarray psz) pbytes),
                 issue (Call_nvrtcGetPTX (program_t_handle p))
                   (issue (Call_nvrtcGetPTXSize (program_t_handle p)) w))
            \<and> (length pbytes = psz \<longrightarrow> fst (ptx lib p w) = Inr pbytes))
       \<and> (nvrtcGetCUBINSize lib (trace w) (program_t_handle p) = (NVRTC_SUCCESS, csz) \<longrightarrow>
          csz \<noteq> 0 \<longrightarrow>
          nvrtcGetCUBIN lib (trace w @ [Call_nvrtcGetCUBINSize (program_t_handle p)]) (program_t_handle p)
            = (NVRTC_SUCCESS, cbytes) \<longrightarrow>
            cubin lib p w
              = (Inr (written_into (dynarray csz) cbytes),
                 issue (Call_nvrtcGetCUBIN (program_t_handle p))
                   (issue (Call_nvrtcGetCUBINSize (program_t_handle p)) w))
            \<and> (length cbytes = csz \<longrightarrow> fst (cubin lib p w) = Inr cbytes))
       \<and> (nvrtcGetNVVMSize lib (trace w) (program_t_handle p) = (NVRTC_SUCCESS, nsz) \<longrightarrow>
          nvrtcGetNVVM lib (trace w @ [Call_nvrtcGetNVVMSize (program_t_handle p)]) (program_t_handle p)
            = (NVRTC_SUCCESS, nbytes) \<longrightarrow>
            nvvm lib p w
              = (Inr (written_into (dynarray nsz) nbytes),
                 issue (Call_nvrtcGetNVVM (program_t_handle p))
                   (issue (Call_nvrtcGetNVVMSize (program_t_handle p)) w))
            \<and> (length nbytes = nsz \<longrightarrow> fst (nvvm lib p w) = Inr nbytes))
       \<and> (fst (cubin lib p w) = Inr c \<longrightarrow>
            length c = snd (nvrtcGetCUBINSize lib (trace w) (program_t_handle p))
            \<and> c = written_into (dynarray (length c))
                    (snd (nvrtcGetCUBIN lib (trace w @ [Call_nvrtcGetCUBINSize (program_t_handle p)])
                            (program_t_handle p))))
       \<and> (fst (ptx lib p w) = Inr a \<longrightarrow>
            length a = snd (nvrtcGetPTXSize lib (trace w) (program_t_handle p))
            \<and> a = written_into (dynarray (length a))
                    (snd (nvrtcGetPTX lib (trace w @ [Call_nvrtcGetPTXSize (program_t_handle p)])
                            (program_t_handle p))))
       \<and> (fst (nvvm lib p w) = Inr n \<longrightarrow>
            length n = snd (nvrtcGetNVVMSize lib (trace w) (program_t_handle p))
            \<and> n = written_into (dynarray (length n))
                    (snd (nvrtcGetNVVM lib (trace w @ [Call_nvrtcGetNVVMSize (program_t_handle p)])
                            (program_t_handle p))))"
proof -
  have before: "isl (fst (ptx lib p w)) \<and> isl (fst (cubin lib p w)) \<and> isl (fst (nvvm lib p w))"
    if "\<not> compile_attempted (trace w) (program_t_handle p)"
    using assms that unfolding artifacts_need_compilation_def
    by (blast intro: ptx_fails cubin_fails nvvm_fails)
  have returns_ptx:
    "ptx lib p w
       = (Inr (written_into (dynarray psz) pbytes),
          issue (Call_nvrtcGetPTX (program_t_handle p))
            (issue (Call_nvrtcGetPTXSize (program_t_handle p)) w))
     \<and> (length pbytes = psz \<longrightarrow> fst (ptx lib p w) = Inr pbytes)"
    if "nvrtcGetPTXSize lib (trace w) (program_t_handle p) = (NVRTC_SUCCESS, psz)"
      and "nvrtcGetPTX lib (trace w @ [Call_nvrtcGetPTXSize (program_t_handle p)]) (program_t_handle p)
             = (NVRTC_SUCCESS, pbytes)"
    by (simp add: ptx_returns [OF that] written_into_dynarray)
  have returns_cubin:
    "cubin lib p w
       = (Inr (written_into (dynarray csz) cbytes),
          issue (Call_nvrtcGetCUBIN (program_t_handle p))
            (issue (Call_nvrtcGetCUBINSize (program_t_handle p)) w))
     \<and> (length cbytes = csz \<longrightarrow> fst (cubin lib p w) = Inr cbytes)"
    if "nvrtcGetCUBINSize lib (trace w) (program_t_handle p) = (NVRTC_SUCCESS, csz)"
      and "csz \<noteq> 0"
      and "nvrtcGetCUBIN lib (trace w @ [Call_nvrtcGetCUBINSize (program_t_handle p)]) (program_t_handle p)
             = (NVRTC_SUCCESS, cbytes)"
    by (simp add: cubin_returns [OF that] written_into_dynarray)
  have returns_nvvm:
    "nvvm lib p w
       = (Inr (written_into (dynarray nsz) nbytes),
          issue (Call_nvrtcGetNVVM (program_t_handle p))
            (issue (Call_nvrtcGetNVVMSize (program_t_handle p)) w))
     \<and> (length nbytes = nsz \<longrightarrow> fst (nvvm lib p w) = Inr nbytes)"
    if "nvrtcGetNVVMSize lib (trace w) (program_t_handle p) = (NVRTC_SUCCESS, nsz)"
      and "nvrtcGetNVVM lib (trace w @ [Call_nvrtcGetNVVMSize (program_t_handle p)]) (program_t_handle p)
             = (NVRTC_SUCCESS, nbytes)"
    by (simp add: nvvm_returns [OF that] written_into_dynarray)
  show ?thesis
  proof (intro conjI)
    show "\<not> compile_attempted (trace w) (program_t_handle p) \<longrightarrow>
            isl (fst (ptx lib p w)) \<and> isl (fst (cubin lib p w)) \<and> isl (fst (nvvm lib p w))"
      using before by blast
    show "(fst (cubin lib p w) = Inl invalid_argument)
            = (nvrtcGetCUBINSize lib (trace w) (program_t_handle p) = (NVRTC_SUCCESS, 0))"
      by (rule cubin_empty_iff)
    show "nvrtcGetPTXSize lib (trace w) (program_t_handle p) = (NVRTC_SUCCESS, psz) \<longrightarrow>
          nvrtcGetPTX lib (trace w @ [Call_nvrtcGetPTXSize (program_t_handle p)]) (program_t_handle p)
            = (NVRTC_SUCCESS, pbytes) \<longrightarrow>
            ptx lib p w
              = (Inr (written_into (dynarray psz) pbytes),
                 issue (Call_nvrtcGetPTX (program_t_handle p))
                   (issue (Call_nvrtcGetPTXSize (program_t_handle p)) w))
            \<and> (length pbytes = psz \<longrightarrow> fst (ptx lib p w) = Inr pbytes)"
      using returns_ptx by blast
    show "nvrtcGetCUBINSize lib (trace w) (program_t_handle p) = (NVRTC_SUCCESS, csz) \<longrightarrow>
          csz \<noteq> 0 \<longrightarrow>
          nvrtcGetCUBIN lib (trace w @ [Call_nvrtcGetCUBINSize (program_t_handle p)]) (program_t_handle p)
            = (NVRTC_SUCCESS, cbytes) \<longrightarrow>
            cubin lib p w
              = (Inr (written_into (dynarray csz) cbytes),
                 issue (Call_nvrtcGetCUBIN (program_t_handle p))
                   (issue (Call_nvrtcGetCUBINSize (program_t_handle p)) w))
            \<and> (length cbytes = csz \<longrightarrow> fst (cubin lib p w) = Inr cbytes)"
      using returns_cubin by blast
    show "nvrtcGetNVVMSize lib (trace w) (program_t_handle p) = (NVRTC_SUCCESS, nsz) \<longrightarrow>
          nvrtcGetNVVM lib (trace w @ [Call_nvrtcGetNVVMSize (program_t_handle p)]) (program_t_handle p)
            = (NVRTC_SUCCESS, nbytes) \<longrightarrow>
            nvvm lib p w
              = (Inr (written_into (dynarray nsz) nbytes),
                 issue (Call_nvrtcGetNVVM (program_t_handle p))
                   (issue (Call_nvrtcGetNVVMSize (program_t_handle p)) w))
            \<and> (length nbytes = nsz \<longrightarrow> fst (nvvm lib p w) = Inr nbytes)"
      using returns_nvvm by blast
    show "fst (cubin lib p w) = Inr c \<longrightarrow>
            length c = snd (nvrtcGetCUBINSize lib (trace w) (program_t_handle p))
            \<and> c = written_into (dynarray (length c))
                    (snd (nvrtcGetCUBIN lib (trace w @ [Call_nvrtcGetCUBINSize (program_t_handle p)])
                            (program_t_handle p)))"
      using cubin_Inr [of lib p w c] by simp
    show "fst (ptx lib p w) = Inr a \<longrightarrow>
            length a = snd (nvrtcGetPTXSize lib (trace w) (program_t_handle p))
            \<and> a = written_into (dynarray (length a))
                    (snd (nvrtcGetPTX lib (trace w @ [Call_nvrtcGetPTXSize (program_t_handle p)])
                            (program_t_handle p)))"
      using ptx_Inr [of lib p w a] by simp
    show "fst (nvvm lib p w) = Inr n \<longrightarrow>
            length n = snd (nvrtcGetNVVMSize lib (trace w) (program_t_handle p))
            \<and> n = written_into (dynarray (length n))
                    (snd (nvrtcGetNVVM lib (trace w @ [Call_nvrtcGetNVVMSize (program_t_handle p)])
                            (program_t_handle p)))"
      using nvvm_Inr [of lib p w n] by simp
  qed
qed

lemma sample_nvrtc_needs_compilation: "artifacts_need_compilation sample_nvrtc"
  by (simp add: artifacts_need_compilation_def sample_nvrtc_def sample_artifact_def)

lemma virtual_nvrtc_needs_compilation: "artifacts_need_compilation virtual_nvrtc"
  by (simp add: artifacts_need_compilation_def virtual_nvrtc_def sample_nvrtc_def sample_artifact_def)

text \<open>
  The theorem on the sample library: before a compilation all three accessors fail;
  after one, \<^verbatim>\<open>ptx()\<close>, \<^verbatim>\<open>cubin()\<close> and \<^verbatim>\<open>nvvm()\<close> return the bytes of their
  artifacts, having issued the size query and the getter; on a library that compiles for
  a virtual architecture only, \<^verbatim>\<open>cubin()\<close> throws \<^verbatim>\<open>invalid_argument\<close>.
\<close>

theorem artifact_accessors_witness:
  "isl (fst (ptx sample_nvrtc \<lparr>program_t_handle = 1, program_t_name = ''p'', program_t_owning = True\<rparr>
               \<lparr>trace = [Call_nvrtcCreateProgram ''s'' ''p'' 0 [] []], ctx_stack = []\<rparr>))
   \<and> isl (fst (cubin sample_nvrtc \<lparr>program_t_handle = 1, program_t_name = ''p'', program_t_owning = True\<rparr>
               \<lparr>trace = [Call_nvrtcCreateProgram ''s'' ''p'' 0 [] []], ctx_stack = []\<rparr>))
   \<and> isl (fst (nvvm sample_nvrtc \<lparr>program_t_handle = 1, program_t_name = ''p'', program_t_owning = True\<rparr>
               \<lparr>trace = [Call_nvrtcCreateProgram ''s'' ''p'' 0 [] []], ctx_stack = []\<rparr>))
   \<and> ptx sample_nvrtc \<lparr>program_t_handle = 1, program_t_name = ''p'', program_t_owning = True\<rparr>
         \<lparr>trace = [Call_nvrtcCreateProgram ''s'' ''p'' 0 [] [], Call_nvrtcCompileProgram 1 []],
          ctx_stack = []\<rparr>
       = (Inr ''ptx'',
          \<lparr>trace = [Call_nvrtcCreateProgram ''s'' ''p'' 0 [] [], Call_nvrtcCompileProgram 1 [],
                    Call_nvrtcGetPTXSize 1, Call_nvrtcGetPTX 1],
           ctx_stack = []\<rparr>)
   \<and> cubin sample_nvrtc \<lparr>program_t_handle = 1, program_t_name = ''p'', program_t_owning = True\<rparr>
         \<lparr>trace = [Call_nvrtcCreateProgram ''s'' ''p'' 0 [] [], Call_nvrtcCompileProgram 1 []],
          ctx_stack = []\<rparr>
       = (Inr ''cubin'',
          \<lparr>trace = [Call_nvrtcCreateProgram ''s'' ''p'' 0 [] [], Call_nvrtcCompileProgram 1 [],
                    Call_nvrtcGetCUBINSize 1, Call_nvrtcGetCUBIN 1],
           ctx_stack = []\<rparr>)
   \<and> nvvm sample_nvrtc \<lparr>program_t_handle = 1, program_t_name = ''p'', program_t_owning = True\<rparr>
         \<lparr>trace = [Call_nvrtcCreateProgram ''s'' ''p'' 0 [] [], Call_nvrtcCompileProgram 1 []],
          ctx_stack = []\<rparr>
       = (Inr ''nvvm'',
          \<lparr>trace = [Call_nvrtcCreateProgram ''s'' ''p'' 0 [] [], Call_nvrtcCompileProgram 1 [],
                    Call_nvrtcGetNVVMSize 1, Call_nvrtcGetNVVM 1],
           ctx_stack = []\<rparr>)
   \<and> fst (cubin virtual_nvrtc \<lparr>program_t_handle = 1, program_t_name = ''p'', program_t_owning = True\<rparr>
               \<lparr>trace = [Call_nvrtcCreateProgram ''s'' ''p'' 0 [] [], Call_nvrtcCompileProgram 1 []],
                ctx_stack = []\<rparr>) = Inl invalid_argument"
proof -
  let ?p = "\<lparr>program_t_handle = 1, program_t_name = ''p'', program_t_owning = True\<rparr>"
  let ?w0 = "\<lparr>trace = [Call_nvrtcCreateProgram ''s'' ''p'' 0 [] []], ctx_stack = []\<rparr>"
  let ?w1 = "\<lparr>trace = [Call_nvrtcCreateProgram ''s'' ''p'' 0 [] [], Call_nvrtcCompileProgram 1 []],
              ctx_stack = []\<rparr>"
  have fresh: "\<not> compile_attempted (trace ?w0) (program_t_handle ?p)"
    by (simp add: compile_attempted_def)
  have empty: "nvrtcGetCUBINSize virtual_nvrtc (trace ?w1) (program_t_handle ?p) = (NVRTC_SUCCESS, 0)"
    by (simp add: virtual_nvrtc_def sample_nvrtc_def sample_artifact_def compile_attempted_def)
  have sizes:
      "nvrtcGetPTXSize sample_nvrtc (trace ?w1) (program_t_handle ?p) = (NVRTC_SUCCESS, 3)"
      "nvrtcGetCUBINSize sample_nvrtc (trace ?w1) (program_t_handle ?p) = (NVRTC_SUCCESS, 5)"
      "nvrtcGetNVVMSize sample_nvrtc (trace ?w1) (program_t_handle ?p) = (NVRTC_SUCCESS, 4)"
    by (simp_all add: sample_nvrtc_def sample_artifact_def compile_attempted_def)
  have getters:
      "nvrtcGetPTX sample_nvrtc (trace ?w1 @ [Call_nvrtcGetPTXSize (program_t_handle ?p)])
         (program_t_handle ?p) = (NVRTC_SUCCESS, ''ptx'')"
      "nvrtcGetCUBIN sample_nvrtc (trace ?w1 @ [Call_nvrtcGetCUBINSize (program_t_handle ?p)])
         (program_t_handle ?p) = (NVRTC_SUCCESS, ''cubin'')"
      "nvrtcGetNVVM sample_nvrtc (trace ?w1 @ [Call_nvrtcGetNVVMSize (program_t_handle ?p)])
         (program_t_handle ?p) = (NVRTC_SUCCESS, ''nvvm'')"
    by (simp_all add: sample_nvrtc_def)
  have nonzero: "(5 :: nat) \<noteq> 0"
    by simp
  note before = artifact_accessors [OF sample_nvrtc_needs_compilation,
                  where w = ?w0 and p = ?p, THEN conjunct1, rule_format, OF fresh]
  note after = artifact_accessors [OF sample_nvrtc_needs_compilation,
                 where w = ?w1 and p = ?p and psz = 3 and pbytes = "''ptx''"
                   and csz = 5 and cbytes = "''cubin''" and nsz = 4 and nbytes = "''nvvm''"]
  note virt = artifact_accessors [OF virtual_nvrtc_needs_compilation, where w = ?w1 and p = ?p]
  show ?thesis
    using before after virt empty sizes getters nonzero
    by (simp add: written_into_def dynarray_def issue_def)
qed

lemma has_ptx_world: "snd (has_ptx lib p w) = issue (Call_nvrtcGetPTXSize (program_t_handle p)) w"
  by (simp add: has_ptx_def Let_def split_def split: sum.split)

lemma has_cubin_world: "snd (has_cubin lib p w) = issue (Call_nvrtcGetCUBINSize (program_t_handle p)) w"
  by (simp add: has_cubin_def Let_def split_def split: sum.split)

lemma has_nvvm_world: "snd (has_nvvm lib p w) = issue (Call_nvrtcGetNVVMSize (program_t_handle p)) w"
  by (simp add: has_nvvm_def Let_def split_def split: sum.split)

lemma has_ptx_zero_size:
  "nvrtcGetPTXSize lib (trace w) (program_t_handle p) = (NVRTC_SUCCESS, 0)
     \<Longrightarrow> fst (has_ptx lib p w) = Inl logic_error"
  by (simp add: has_ptx_def rtc_throw_if_error_def)

lemma has_nvvm_zero_size:
  "nvrtcGetNVVMSize lib (trace w) (program_t_handle p) = (NVRTC_SUCCESS, 0)
     \<Longrightarrow> fst (has_nvvm lib p w) = Inl logic_error"
  by (simp add: has_nvvm_def rtc_throw_if_error_def)

text \<open>
  Claim C7, as stated, has every probe return false, and not throw, whenever its size
  query indicates that the compilation has no such artifact. A size query that succeeds
  with size 0 indicates just that, and \<^verbatim>\<open>has_cubin\<close> answers false to it; but
  \<^verbatim>\<open>has_ptx\<close> throws \<^verbatim>\<open>logic_error\<close>: on a library that reports the PTX of a
  compiled program as empty, the probe does not return.
\<close>

theorem has_ptx_throws_on_empty_ptx:
  "nvrtcGetPTXSize empty_nvrtc [Call_nvrtcCompileProgram 1 []] 1 = (NVRTC_SUCCESS, 0)
   \<and> has_ptx empty_nvrtc \<lparr>program_t_handle = 1, program_t_name = ''p'', program_t_owning = True\<rparr>
         \<lparr>trace = [Call_nvrtcCompileProgram 1 []], ctx_stack = []\<rparr>
       = (Inl logic_error,
          \<lparr>trace = [Call_nvrtcCompileProgram 1 [], Call_nvrtcGetPTXSize 1], ctx_stack = []\<rparr>)"
  by (simp add: has_ptx_def empty_nvrtc_def sample_nvrtc_def sample_artifact_def
        compile_attempted_def rtc_throw_if_error_def issue_def)

text \<open>
  Claim C7, amended (\<^verbatim>\<open>has_ptx\<close>, \<^verbatim>\<open>has_cubin\<close>, \<^verbatim>\<open>has_nvvm\<close>). Each probe issues
  one native call, the size query of its artifact, and no getter. When the size query
  answers \<^verbatim>\<open>NVRTC_ERROR_INVALID_PROGRAM\<close>, the probe returns false and does not throw.
  When the size query succeeds with size 0, \<^verbatim>\<open>has_cubin\<close> returns false, while
  \<^verbatim>\<open>has_ptx\<close> and \<^verbatim>\<open>has_nvvm\<close> throw \<^verbatim>\<open>logic_error\<close>. When it succeeds with another
  size, the probe returns true. Any other status is thrown as the error carrying it.
\<close>

theorem has_artifact_probes:
  "trace (snd (has_ptx lib p w)) = trace w @ [Call_nvrtcGetPTXSize (program_t_handle p)]
   \<and> trace (snd (has_cubin lib p w)) = trace w @ [Call_nvrtcGetCUBINSize (program_t_handle p)]
   \<and> trace (snd (has_nvvm lib p w)) = trace w @ [Call_nvrtcGetNVVMSize (program_t_handle p)]
   \<and> (fst (nvrtcGetPTXSize lib (trace w) (program_t_handle p)) = NVRTC_ERROR_INVALID_PROGRAM \<longrightarrow>
        fst (has_ptx lib p w) = Inr False)
   \<and> (fst (nvrtcGetCUBINSize lib (trace w) (program_t_handle p)) = NVRTC_ERROR_INVALID_PROGRAM \<longrightarrow>
        fst (has_cubin lib p w) = Inr False)
   \<and> (fst (nvrtcGetNVVMSize lib (trace w) (program_t_handle p)) = NVRTC_ERROR_INVALID_PROGRAM \<longrightarrow>
        fst (has_nvvm lib p w) = Inr False)
   \<and> (nvrtcGetCUBINSize lib (trace w) (program_t_handle p) = (NVRTC_SUCCESS, 0) \<longrightarrow>
        fst (has_cubin lib p w) = Inr False)
   \<and> (nvrtcGetPTXSize lib (trace w) (program_t_handle p) = (NVRTC_SUCCESS, 0) \<longrightarrow>
        fst (has_ptx lib p w) = Inl logic_error)
   \<and> (nvrtcGetNVVMSize lib (trace w) (program_t_handle p) = (NVRTC_SUCCESS, 0) \<longrightarrow>
        fst (has_nvvm lib p w) = Inl logic_error)
   \<and> (nvrtcGetPTXSize lib (trace w) (program_t_handle p) = (NVRTC_SUCCESS, sz) \<longrightarrow> sz \<noteq> 0 \<longrightarrow>
        fst (has_ptx lib p w) = Inr True)
   \<and> (nvrtcGetCUBINSize lib (trace w) (program_t_handle p) = (NVRTC_SUCCESS, sz) \<longrightarrow> sz \<noteq> 0 \<longrightarrow>
        fst (has_cubin lib p w) = Inr True)
   \<and> (nvrtcGetNVVMSize lib (trace w) (program_t_handle p) = (NVRTC_SUCCESS, sz) \<longrightarrow> sz \<noteq> 0 \<longrightarrow>
        fst (has_nvvm lib p w) = Inr True)
   \<and> (fst (nvrtcGetPTXSize lib (trace w) (program_t_handle p)) = NVRTC_ERROR_OTHER code \<longrightarrow>
        fst (has_ptx lib p w) = Inl (rtc_runtime_error (NVRTC_ERROR_OTHER code)))
   \<and> (fst (nvrtcGetCUBINSize lib (trace w) (program_t_handle p)) = NVRTC_ERROR_OTHER code \<longrightarrow>
        fst (has_cubin lib p w) = Inl (rtc_runtime_error (NVRTC_ERROR_OTHER code)))
   \<and> (fst (nvrtcGetNVVMSize lib (trace w) (program_t_handle p)) = NVRTC_ERROR_OTHER code \<longrightarrow>
        fst (has_nvvm lib p w) = Inl (rtc_runtime_error (NVRTC_ERROR_OTHER code)))"
  by (simp add: has_ptx_world has_cubin_world has_nvvm_world trace_issue)
     (simp add: has_ptx_def has_cubin_def has_nvvm_def Let_def split_def rtc_throw_if_error_def)

text \<open>
  The theorem on the sample library before and after a compilation, and on the library
  that reports every artifact as empty.
\<close>

theorem has_artifact_probes_witness:
  "fst (has_ptx sample_nvrtc \<lparr>program_t_handle = 1, program_t_name = ''p'', program_t_owning = True\<rparr>
          initial_world) = Inr False
   \<and> fst (has_cubin sample_nvrtc \<lparr>program_t_handle = 1, program_t_name = ''p'', program_t_owning = True\<rparr>
          initial_world) = Inr False
   \<and> fst (has_nvvm sample_nvrtc \<lparr>program_t_handle = 1, program_t_name = ''p'', program_t_owning = True\<rparr>
          initial_world) = Inr False
   \<and> fst (has_ptx sample_nvrtc \<lparr>program_t_handle = 1, program_t_name = ''p'', program_t_owning = True\<rparr>
          \<lparr>trace = [Call_nvrtcCompileProgram 1 []], ctx_stack = []\<rparr>) = Inr True
   \<and> fst (has_cubin empty_nvrtc \<lparr>program_t_handle = 1, program_t_name = ''p'', program_t_owning = True\<rparr>
          \<lparr>trace = [Call_nvrtcCompileProgram 1 []], ctx_stack = []\<rparr>) = Inr False
   \<and> fst (has_nvvm empty_nvrtc \<lparr>program_t_handle = 1, program_t_name = ''p'', program_t_owning = True\<rparr>
          \<lparr>trace = [Call_nvrtcCompileProgram 1 []], ctx_stack = []\<rparr>) = Inl logic_error"
proof -
  let ?p = "\<lparr>program_t_handle = 1, program_t_name = ''p'', program_t_owning = True\<rparr>"
  let ?w1 = "\<lparr>trace = [Call_nvrtcCompileProgram 1 []], ctx_stack = []\<rparr>"
  have absent:
      "fst (nvrtcGetPTXSize sample_nvrtc (trace initial_world) (program_t_handle ?p)) = NVRTC_ERROR_INVALID_PROGRAM"
      "fst (nvrtcGetCUBINSize sample_nvrtc (trace initial_world) (program_t_handle ?p)) = NVRTC_ERROR_INVALID_PROGRAM"
      "fst (nvrtcGetNVVMSize sample_nvrtc (trace initial_world) (program_t_handle ?p)) = NVRTC_ERROR_INVALID_PROGRAM"
    by (simp_all add: sample_nvrtc_def sample_artifact_def compile_attempted_def initial_world_def)
  have present: "nvrtcGetPTXSize sample_nvrtc (trace ?w1) (program_t_handle ?p) = (NVRTC_SUCCESS, 3)"
    by (simp add: sample_nvrtc_def sample_artifact_def compile_attempted_def)
  have nonzero: "(3 :: nat) \<noteq> 0"
    by simp
  have empty:
      "nvrtcGetCUBINSize empty_nvrtc (trace ?w1) (program_t_handle ?p) = (NVRTC_SUCCESS, 0)"
      "nvrtcGetNVVMSize empty_nvrtc (trace ?w1) (program_t_handle ?p) = (NVRTC_SUCCESS, 0)"
    by (simp_all add: empty_nvrtc_def sample_nvrtc_def sample_artifact_def compile_attempted_def)
  show ?thesis
    using has_artifact_probes [where lib = sample_nvrtc and p = ?p and w = initial_world]
      has_artifact_probes [where lib = sample_nvrtc and p = ?p and w = ?w1 and sz = 3]
      has_artifact_probes [where lib = empty_nvrtc and p = ?p and w = ?w1]
      absent present nonzero empty
    by simp
qed

section \<open>Mutators of the resource\<close>

lemma mutators_leave_proxy_unchanged:
  "fst (snd (register_name_for_lookup lib p name w)) = p"
  "fst (snd (set_cache_preference drv k pref w)) = k"
  "fst (snd (set_shared_memory_bank_size drv k cfg w)) = k"
  by (simp_all add: register_name_for_lookup_def set_cache_preference_def
        set_shared_memory_bank_size_def Let_def)

text \<open>
  Claim C8 (operations on the resource are const on the proxy). None of the operations
  changes a field of the proxy (\<open>mutators_leave_proxy_unchanged\<close>), but three of them
  are not declared \<^verbatim>\<open>const\<close> and cannot be called through a const proxy:
  \<^verbatim>\<open>program_t::register_name_for_lookup\<close>, \<^verbatim>\<open>kernel_t::set_cache_preference\<close> and
  \<^verbatim>\<open>kernel_t::set_shared_memory_bank_size\<close>. Their siblings \<^verbatim>\<open>program_t::compile\<close>
  and \<^verbatim>\<open>kernel_t::set_attribute\<close> are.
\<close>

theorem mutators_not_const_qualified:
  "\<not> callable_on_const_proxy M_program_register_name_for_lookup
   \<and> \<not> callable_on_const_proxy M_kernel_set_cache_preference
   \<and> \<not> callable_on_const_proxy M_kernel_set_shared_memory_bank_size
   \<and> callable_on_const_proxy M_program_compile
   \<and> callable_on_const_proxy M_kernel_set_attribute"
  by (simp add: callable_on_const_proxy_def)

section \<open>Program factories\<close>

lemma program_t_ctor_Inr:
  assumes "program_t_ctor lib program_name cuda_source n names sources w = (Inr p, w')"
  shows "program_t_owning p" and "program_t_name p = program_name"
    and "trace w' = trace w @ [Call_nvrtcCreateProgram cuda_source program_name n sources names]"
  using assms
  by (auto simp add: program_t_ctor_def Let_def split_def rtc_throw_if_error_def trace_issue
        split: if_splits)

lemma create_keeps_argument_order:
  assumes "create lib program_name cuda_source w = (Inr p, w')"
  shows "program_t_owning p" and "program_t_name p = program_name"
    and "trace w' = trace w @ [Call_nvrtcCreateProgram cuda_source program_name 0 [] []]"
  using program_t_ctor_Inr [OF assms [unfolded create_def]] by simp_all

lemma create_spans_keeps_argument_order:
  assumes "create_spans lib program_name cuda_source names sources w = (Inr p, w')"
  shows "program_t_owning p" and "program_t_name p = program_name"
    and "trace w' = trace w @ [Call_nvrtcCreateProgram cuda_source program_name (length names) sources names]"
  using program_t_ctor_Inr [OF assms [unfolded create_spans_def]] by simp_all

lemma create_iterators_swaps:
  assumes "create_iterators lib program_name cuda_source names sources w = (Inr p, w')"
  shows "program_t_owning p" and "program_t_name p = cuda_source"
    and "trace w' = trace w @ [Call_nvrtcCreateProgram program_name cuda_source (length names)
                                 (take (length names) sources) names]"
  using program_t_ctor_Inr [OF assms [unfolded create_iterators_def Let_def]] by simp_all

text \<open>
  Claim C10 (the factories keep name and source apart). The two-argument and the span
  overloads do (\<open>create_keeps_argument_order\<close>, \<open>create_spans_keeps_argument_order\<close>).
  The iterator overload hands \<^verbatim>\<open>cuda_source\<close> to the constructor as the name and
  \<^verbatim>\<open>program_name\<close> as the source (\<open>create_iterators_swaps\<close>): creating the program
  named \<open>prog\<close> from the source \<open>__global__ void k(){}\<close> gives a proxy whose name is the
  source text, and NVRTC is given \<open>prog\<close> to compile.
\<close>

theorem create_iterators_interchanges_arguments:
  "create_iterators sample_nvrtc ''prog'' ''__global__ void k(){}'' [] [] initial_world
   = (Inr \<lparr>program_t_handle = 1, program_t_name = ''__global__ void k(){}'', program_t_owning = True\<rparr>,
      \<lparr>trace = [Call_nvrtcCreateProgram ''prog'' ''__global__ void k(){}'' 0 [] []], ctx_stack = []\<rparr>)"
  by (simp add: create_iterators_def program_t_ctor_def sample_nvrtc_def rtc_throw_if_error_def
        issue_def initial_world_def)


section \<open>Occupancy\<close>

lemma uint_of_nonneg_sint:
  fixes b :: "32 word"
  assumes "0 \<le> sint b"
  shows "uint b = sint b"
proof -
  have "sint b < 2 ^ 32" using sint_lt [of b] by simp
  with assms have "take_bit 32 (sint b) = sint b"
    by (simp add: take_bit_int_eq_self)
  then show ?thesis using uint_sint [of b] by simp
qed

lemma uint_of_neg_sint:
  fixes L :: "32 word"
  assumes "sint L < 0"
  shows "2 ^ 31 \<le> uint L"
proof -
  have lo: "- (2 ^ 31) \<le> sint L" using sint_ge [of L] by simp
  have "(sint L + 2 ^ 32) mod 2 ^ 32 = sint L + 2 ^ 32"
    using lo assms by (intro mod_pos_pos_trivial) simp_all
  then have "sint L mod 2 ^ 32 = sint L + 2 ^ 32"
    by simp
  then have "uint L = sint L + 2 ^ 32"
    using uint_sint [of L] by (simp add: take_bit_eq_mod)
  then show ?thesis using lo by simp
qed

lemma block_size_within_limit:
  fixes b L :: "32 word"
  assumes "0 \<le> sint b" and "0 < sint L \<longrightarrow> sint b \<le> sint L" and "L \<noteq> 0"
  shows "b \<le> L"
proof (cases "0 < sint L")
  case True
  then have "uint L = sint L" by (simp add: uint_of_nonneg_sint)
  moreover have "uint b = sint b" using assms(1) by (rule uint_of_nonneg_sint)
  ultimately show ?thesis using assms(2) True by (simp add: word_le_def)
next
  case False
  have "sint L \<noteq> 0" using assms(3) by (simp add: signed_eq_0_iff)
  with False have neg: "sint L < 0" by simp
  have "sint b < 2 ^ 31" using sint_lt [of b] by simp
  moreover have "uint b = sint b" using assms(1) by (rule uint_of_nonneg_sint)
  moreover have "2 ^ 31 \<le> uint L" using neg by (rule uint_of_neg_sint)
  ultimately show ?thesis by (simp add: word_le_def)
qed

lemma block_size_within_attribute:
  fixes b m :: "32 word"
  assumes "0 \<le> sint b" and "sint b \<le> sint m"
  shows "b \<le> m"
proof -
  have "uint b = sint b" using assms(1) by (rule uint_of_nonneg_sint)
  moreover have "uint m = sint m" using assms by (intro uint_of_nonneg_sint) simp
  ultimately show ?thesis using assms(2) by (simp add: word_le_def)
qed


lemma detail_min_grid_params_Inr:
  assumes "detail_min_grid_params_for_max_occupancy drv h dev det fixed L dco w = (Inr dims, w')"
  shows "10000 < CUDART_VERSION drv"
    and "cuOccupancyMaxPotentialBlockSizeWithFlags drv (trace w) h det fixed L
           (if dco then CU_OCCUPANCY_DISABLE_CACHING_OVERRIDE else CU_OCCUPANCY_DEFAULT)
         = (success, grid dims, block dims)"
    and "trace w' = trace w @ [Call_cuOccupancyMaxPotentialBlockSizeWithFlags h det fixed L
           (if dco then CU_OCCUPANCY_DISABLE_CACHING_OVERRIDE else CU_OCCUPANCY_DEFAULT)]"
    and "ctx_stack w' = ctx_stack w"
  using assms
  by (auto simp add: detail_min_grid_params_for_max_occupancy_def Let_def split_def
        throw_if_error_def trace_issue ctx_stack_issue prod_eq_iff split: if_splits)

lemma maximum_threads_per_block_Inr:
  assumes "maximum_threads_per_block drv k w = (Inr m, w'')"
  shows "cuFuncGetAttribute drv (trace w) CU_FUNC_ATTRIBUTE_MAX_THREADS_PER_BLOCK (kernel_t_handle k)
         = (success, m)"
  using assms
  by (auto simp add: maximum_threads_per_block_def get_attribute_def
        get_attribute_in_current_context_def Let_def split_def throw_if_error_def
        trace_scoped_override_t_ctor prod_eq_iff split: if_splits)

lemma detail_block_size_bounded:
  assumes c: "occupancy_within_limits drv"
    and r: "detail_min_grid_params_for_max_occupancy drv (kernel_t_handle k) dev det fixed L dco w
              = (Inr dims, w')"
  shows "(L \<noteq> 0 \<longrightarrow> block dims \<le> L)
       \<and> (L = 0 \<longrightarrow> maximum_threads_per_block drv k w = (Inr m, w'') \<longrightarrow> block dims \<le> m)"
proof -
  note occ = detail_min_grid_params_Inr(2) [OF r]
  let ?flags = "if dco then CU_OCCUPANCY_DISABLE_CACHING_OVERRIDE else CU_OCCUPANCY_DEFAULT"
  note c' = c [unfolded occupancy_within_limits_def]
  note c'' = c' [THEN spec [where x = "trace w"], THEN spec [where x = "kernel_t_handle k"],
                 THEN spec [where x = det], THEN spec [where x = fixed], THEN spec [where x = L],
                 THEN spec [where x = "?flags"]]
  from c''
  have b: "0 \<le> sint (block dims)"
    and lim: "0 < sint L \<longrightarrow> sint (block dims) \<le> sint L"
    and att: "L = 0 \<longrightarrow>
       (case cuFuncGetAttribute drv (trace w) CU_FUNC_ATTRIBUTE_MAX_THREADS_PER_BLOCK (kernel_t_handle k) of
          (st', max_threads) \<Rightarrow> st' = success \<longrightarrow> sint (block dims) \<le> sint max_threads)"
    by (simp_all add: occ)
  have "block dims \<le> L" if "L \<noteq> 0"
    using b lim that by (rule block_size_within_limit)
  moreover have "block dims \<le> m" if "L = 0" and "maximum_threads_per_block drv k w = (Inr m, w'')"
  proof -
    from att that(1) maximum_threads_per_block_Inr [OF that(2)]
    have "sint (block dims) \<le> sint m" by simp
    with b show ?thesis by (rule block_size_within_attribute)
  qed
  ultimately show ?thesis by blast
qed

text \<open>
  Claim C9 (occupancy bounds). On a driver whose occupancy heuristic respects its
  limits, whenever \<^verbatim>\<open>min_grid_params_for_max_occupancy\<close> returns (by fixed
  shared-memory size or by a size-determining function): with a block-size limit
  \<open>L > 0\<close> the returned block size is at most \<open>L\<close> as unsigned numbers, for every
  32-bit \<open>L\<close>; with \<open>L = 0\<close> it is at most what \<^verbatim>\<open>maximum_threads_per_block()\<close>
  returns in the same world. The pair holds the driver's minimum grid size in its grid
  component and the driver's block size in its block component, and the driver was
  called once, with the kernel's handle, the limit, and the caching-disable flag exactly
  when \<^verbatim>\<open>disable_caching_override\<close> is true.
\<close>

theorem occupancy_block_size_bounded:
  assumes "occupancy_within_limits drv"
  shows "(min_grid_params_for_max_occupancy drv k fixed L dco w = (Inr dims, w') \<longrightarrow>
            (L \<noteq> 0 \<longrightarrow> block dims \<le> L)
            \<and> (L = 0 \<longrightarrow> maximum_threads_per_block drv k w = (Inr m, w'') \<longrightarrow> block dims \<le> m)
            \<and> cuOccupancyMaxPotentialBlockSizeWithFlags drv (trace w) (kernel_t_handle k) None fixed L
                 (if dco then CU_OCCUPANCY_DISABLE_CACHING_OVERRIDE else CU_OCCUPANCY_DEFAULT)
               = (success, grid dims, block dims)
            \<and> trace w' = trace w @ [Call_cuOccupancyMaxPotentialBlockSizeWithFlags
                 (kernel_t_handle k) None fixed L
                 (if dco then CU_OCCUPANCY_DISABLE_CACHING_OVERRIDE else CU_OCCUPANCY_DEFAULT)])
       \<and> (min_grid_params_for_max_occupancy_by_determiner drv k f L dco w = (Inr dims, w') \<longrightarrow>
            (L \<noteq> 0 \<longrightarrow> block dims \<le> L)
            \<and> (L = 0 \<longrightarrow> maximum_threads_per_block drv k w = (Inr m, w'') \<longrightarrow> block dims \<le> m)
            \<and> cuOccupancyMaxPotentialBlockSizeWithFlags drv (trace w) (kernel_t_handle k) (Some f) 0 L
                 (if dco then CU_OCCUPANCY_DISABLE_CACHING_OVERRIDE else CU_OCCUPANCY_DEFAULT)
               = (success, grid dims, block dims)
            \<and> trace w' = trace w @ [Call_cuOccupancyMaxPotentialBlockSizeWithFlags
                 (kernel_t_handle k) (Some f) 0 L
                 (if dco then CU_OCCUPANCY_DISABLE_CACHING_OVERRIDE else CU_OCCUPANCY_DEFAULT)])"
proof (intro conjI impI)
  assume r: "min_grid_params_for_max_occupancy drv k fixed L dco w = (Inr dims, w')"
  note d = r [unfolded min_grid_params_for_max_occupancy_def]
  show "cuOccupancyMaxPotentialBlockSizeWithFlags drv (trace w) (kernel_t_handle k) None fixed L
          (if dco then CU_OCCUPANCY_DISABLE_CACHING_OVERRIDE else CU_OCCUPANCY_DEFAULT)
        = (success, grid dims, block dims)"
    by (rule detail_min_grid_params_Inr(2) [OF d])
  show "trace w' = trace w @ [Call_cuOccupancyMaxPotentialBlockSizeWithFlags
          (kernel_t_handle k) None fixed L
          (if dco then CU_OCCUPANCY_DISABLE_CACHING_OVERRIDE else CU_OCCUPANCY_DEFAULT)]"
    by (rule detail_min_grid_params_Inr(3) [OF d])
  { assume "L \<noteq> 0"
    then show "block dims \<le> L"
      using detail_block_size_bounded [OF assms d] by blast }
  { assume "L = 0" and "maximum_threads_per_block drv k w = (Inr m, w'')"
    then show "block dims \<le> m"
      using detail_block_size_bounded [OF assms d, of m w''] by blast }
next
  assume r: "min_grid_params_for_max_occupancy_by_determiner drv k f L dco w = (Inr dims, w')"
  note d = r [unfolded min_grid_params_for_max_occupancy_by_determiner_def Let_def]
  show "cuOccupancyMaxPotentialBlockSizeWithFlags drv (trace w) (kernel_t_handle k) (Some f) 0 L
          (if dco then CU_OCCUPANCY_DISABLE_CACHING_OVERRIDE else CU_OCCUPANCY_DEFAULT)
        = (success, grid dims, block dims)"
    by (rule detail_min_grid_params_Inr(2) [OF d])
  show "trace w' = trace w @ [Call_cuOccupancyMaxPotentialBlockSizeWithFlags
          (kernel_t_handle k) (Some f) 0 L
          (if dco then CU_OCCUPANCY_DISABLE_CACHING_OVERRIDE else CU_OCCUPANCY_DEFAULT)]"
    by (rule detail_min_grid_params_Inr(3) [OF d])
  { assume "L \<noteq> 0"
    then show "block dims \<le> L"
      using detail_block_size_bounded [OF assms d] by blast }
  { assume "L = 0" and "maximum_threads_per_block drv k w = (Inr m, w'')"
    then show "block dims \<le> m"
      using detail_block_size_bounded [OF assms d, of m w''] by blast }
qed


lemma sample_driver_within_limits: "occupancy_within_limits sample_driver"
  by (simp add: occupancy_within_limits_def sample_driver_def sample_block_size_def)

text \<open>
  The theorem on the sample driver: limit 256 gives block size 256, no limit gives the
  kernel's 1024 threads.
\<close>

theorem occupancy_block_size_bounded_witness:
  "fst (min_grid_params_for_max_occupancy sample_driver (kernel_wrap 0 5 9) 0 256 True initial_world)
     = Inr \<lparr>grid = 8, block = 256\<rparr>
   \<and> (256 :: block_dimension_t) \<le> 256
   \<and> fst (min_grid_params_for_max_occupancy_by_determiner sample_driver (kernel_wrap 0 5 9)
            (\<lambda>block_size. 0) 0 False initial_world)
     = Inr \<lparr>grid = 8, block = 1024\<rparr>
   \<and> fst (maximum_threads_per_block sample_driver (kernel_wrap 0 5 9) initial_world) = Inr 1024
   \<and> (1024 :: block_dimension_t) \<le> 1024"
proof -
  let ?k = "kernel_wrap 0 5 9"
  let ?w1 = "\<lparr>trace = [Call_cuOccupancyMaxPotentialBlockSizeWithFlags 9 None 0 256
                          CU_OCCUPANCY_DISABLE_CACHING_OVERRIDE], ctx_stack = []\<rparr>"
  let ?w2 = "\<lparr>trace = [Call_cuOccupancyMaxPotentialBlockSizeWithFlags 9 (Some (\<lambda>block_size. 0)) 0 0
                          CU_OCCUPANCY_DEFAULT], ctx_stack = []\<rparr>"
  let ?w3 = "\<lparr>trace = [Call_cuFuncGetAttribute CU_FUNC_ATTRIBUTE_MAX_THREADS_PER_BLOCK 9],
              ctx_stack = []\<rparr>"
  have limited: "min_grid_params_for_max_occupancy sample_driver ?k 0 256 True initial_world
                   = (Inr \<lparr>grid = 8, block = 256\<rparr>, ?w1)"
    by (simp add: min_grid_params_for_max_occupancy_def detail_min_grid_params_for_max_occupancy_def
          sample_driver_def sample_block_size_def throw_if_error_def issue_def initial_world_def
          kernel_wrap_def)
  have unlimited: "min_grid_params_for_max_occupancy_by_determiner sample_driver ?k (\<lambda>block_size. 0)
                     0 False initial_world = (Inr \<lparr>grid = 8, block = 1024\<rparr>, ?w2)"
    by (simp add: min_grid_params_for_max_occupancy_by_determiner_def
          detail_min_grid_params_for_max_occupancy_def
          sample_driver_def sample_block_size_def throw_if_error_def issue_def initial_world_def
          kernel_wrap_def)
  have attr: "maximum_threads_per_block sample_driver ?k initial_world = (Inr 1024, ?w3)"
    by (simp add: maximum_threads_per_block_def get_attribute_def get_attribute_in_current_context_def
          sample_driver_def throw_if_error_def issue_def initial_world_def kernel_wrap_def
          scoped_override_t_ctor_def scoped_override_t_dtor_def)
  have nonzero: "(256 :: block_dimension_t) \<noteq> 0"
    by simp
  show ?thesis
    using occupancy_block_size_bounded [OF sample_driver_within_limits,
            of ?k 0 256 True initial_world "\<lparr>grid = 8, block = 256\<rparr>" ?w1]
          occupancy_block_size_bounded [OF sample_driver_within_limits,
            of ?k _ 0 False initial_world "\<lparr>grid = 8, block = 1024\<rparr>" ?w2 1024 ?w3 "\<lambda>block_size. 0"]
          limited unlimited attr nonzero
    by simp
qed

end
